theory Spec2Isabelle
  imports Main "HOL-Library.Word"
begin

section \<open>JavaScript values used by the streaming delegate\<close>

text \<open>
  The camera configuration is an untyped object in the source (\<open>cameraConfig: any\<close>).
  A field that may be absent is an \<open>option\<close> (\<open>None\<close> is \<open>undefined\<close>, or \<open>null\<close>
  for \<open>videoFilter\<close>). Numbers are modelled as integers, strings as \<open>string\<close>,
  buffers as lists of bytes.
\<close>

datatype error = TypeError string | Error string

datatype completion = Returned | Raised error

type_synonym Buffer = "8 word list"

text \<open>Truthiness, as \<open>if (x)\<close>, \<open>x && y\<close> and \<open>x || y\<close> read a value.\<close>

definition truthy_num :: "int option \<Rightarrow> bool" where
  "truthy_num x = (case x of None \<Rightarrow> False | Some n \<Rightarrow> n \<noteq> 0)"

definition truthy_str :: "string option \<Rightarrow> bool" where
  "truthy_str x = (case x of None \<Rightarrow> False | Some s \<Rightarrow> s \<noteq> [])"

definition truthy_bool :: "bool option \<Rightarrow> bool" where
  "truthy_bool x = (case x of None \<Rightarrow> False | Some b \<Rightarrow> b)"

text \<open>\<open>x || dflt\<close> where \<open>dflt\<close> is a string or a number literal.\<close>

definition or_str :: "string option \<Rightarrow> string \<Rightarrow> string" where
  "or_str x dflt = (case x of None \<Rightarrow> dflt | Some s \<Rightarrow> if s \<noteq> [] then s else dflt)"

definition or_num :: "int option \<Rightarrow> int \<Rightarrow> int" where
  "or_num x dflt = (case x of None \<Rightarrow> dflt | Some n \<Rightarrow> if n \<noteq> 0 then n else dflt)"

text \<open>\<open>a > b\<close> where \<open>b\<close> may be \<open>undefined\<close>: comparing with \<open>undefined\<close> is false.\<close>

definition gt_num :: "int \<Rightarrow> int option \<Rightarrow> bool" where
  "gt_num a b = (case b of None \<Rightarrow> False | Some n \<Rightarrow> a > n)"

definition lt_num :: "int \<Rightarrow> int option \<Rightarrow> bool" where
  "lt_num a b = (case b of None \<Rightarrow> False | Some n \<Rightarrow> a < n)"

text \<open>\<open>a > b ? b : a\<close> with \<open>a\<close> a number and \<open>b\<close> a possibly absent number.\<close>

definition cap_at :: "int \<Rightarrow> int option \<Rightarrow> int" where
  "cap_at a b = (case b of None \<Rightarrow> a | Some n \<Rightarrow> if a > n then n else a)"

text \<open>Number to string, as string concatenation does it (integers, decimal).\<close>

definition digit_char :: "nat \<Rightarrow> char" where
  "digit_char n = ''0123456789'' ! (n mod 10)"

fun show_nat :: "nat \<Rightarrow> string" where
  "show_nat n = (if n < 10 then [digit_char n] else show_nat (n div 10) @ [digit_char n])"

declare show_nat.simps [simp del]

definition show_num :: "int \<Rightarrow> string" where
  "show_num i = (if i < 0 then CHR ''-'' # show_nat (nat (- i)) else show_nat (nat i))"

text \<open>A possibly absent string inside a concatenation or a template.\<close>

definition show_str :: "string option \<Rightarrow> string" where
  "show_str x = (case x of None \<Rightarrow> ''undefined'' | Some s \<Rightarrow> s)"

text \<open>\<open>Array.prototype.join\<close> with a separator.\<close>

fun join :: "string \<Rightarrow> string list \<Rightarrow> string" where
  "join sep [] = []"
| "join sep [x] = x"
| "join sep (x # y # ys) = x @ sep @ join sep (y # ys)"

text \<open>
  \<open>String.prototype.split(/\s+/)\<close>: the pieces between maximal runs of white space,
  an empty piece before a leading run and after a trailing one. The flag says that the
  previous character was white space.
\<close>

text \<open>The white space of \<open>\s\<close> among the ASCII characters.\<close>

definition is_space :: "char \<Rightarrow> bool" where
  "is_space c = (c \<in> set [CHR '' '', CHR 0x09, CHR 0x0A, CHR 0x0B, CHR 0x0C, CHR 0x0D])"

fun split_from :: "bool \<Rightarrow> string \<Rightarrow> string list" where
  "split_from inws [] = [[]]"
| "split_from inws (c # cs) =
     (if is_space c then (if inws then split_from True cs else [] # split_from True cs)
      else (case split_from False cs of
              [] \<Rightarrow> [[c]]
            | t # ts \<Rightarrow> (c # t) # ts))"

definition split_ws :: "string \<Rightarrow> string list" where
  "split_ws s = split_from False s"

text \<open>\<open>Buffer.prototype.toString('base64')\<close>.\<close>

definition b64_char :: "nat \<Rightarrow> char" where
  "b64_char n =
     ''ABCDEFGHIJKLMNOPQRSTUVWXYZabcdefghijklmnopqrstuvwxyz0123456789+/'' ! (n mod 64)"

fun base64 :: "Buffer \<Rightarrow> string" where
  "base64 [] = []"
| "base64 [a] =
     [b64_char (unat a div 4), b64_char ((unat a mod 4) * 16), CHR ''='', CHR ''='']"
| "base64 [a, b] =
     [b64_char (unat a div 4), b64_char ((unat a mod 4) * 16 + unat b div 16),
      b64_char ((unat b mod 16) * 4), CHR ''='']"
| "base64 (a # b # c # rest) =
     [b64_char (unat a div 4), b64_char ((unat a mod 4) * 16 + unat b div 16),
      b64_char ((unat b mod 16) * 4 + unat c div 64), b64_char (unat c mod 64)]
     @ base64 rest"

section \<open>The data model\<close>

text \<open>The fields of \<open>cameraConfig.videoConfig\<close> that the delegate reads.\<close>

record VideoConfig =
  opt_source :: "string option"
  opt_stillImageSource :: "string option"
  opt_maxWidth :: "int option"
  opt_maxHeight :: "int option"
  opt_maxFPS :: "int option"
  opt_maxBitrate :: "int option"
  opt_minBitrate :: "int option"
  opt_preserveRatio :: "string option"
  opt_vcodec :: "string option"
  opt_packetSize :: "int option"
  opt_videoFilter :: "string option"
  opt_additionalCommandline :: "string option"
  opt_mapvideo :: "string option"
  opt_mapaudio :: "string option"
  opt_audio :: "bool option"
  opt_vflip :: "bool option"
  opt_hflip :: "bool option"
  opt_debug :: "bool option"

record CameraConfig =
  cfg_name :: "string option"
  cfg_videoConfig :: "VideoConfig option"

datatype SRTPCryptoSuites = AES_CM_128_HMAC_SHA1_80 | AES_CM_256_HMAC_SHA1_80 | NONE

record SessionInfo =
  address :: string
  videoPort :: int
  videoReturnPort :: int
  videoCryptoSuite :: SRTPCryptoSuites
  videoSRTP :: Buffer
  videoSSRC :: int
  audioPort :: int
  audioReturnPort :: int
  audioCryptoSuite :: SRTPCryptoSuites
  audioSRTP :: Buffer
  audioSSRC :: int

text \<open>
  The class \<open>FfmpegProcess\<close> (module \<open>./ffmpeg\<close>) is not among the sources. Its
  handle is the record of the arguments that the start case gives its constructor (the
  logger, the callback and the delegate itself left out); whether its constructor or
  its \<open>stop\<close> method throws is a parameter of the operations that call them.
\<close>

record FfmpegProcess =
  proc_title :: "string option"
  proc_command :: string
  proc_sessionId :: string
  proc_returnPort :: int
  proc_debug :: "bool option"
  proc_videoProcessor :: string

record StreamAddress =
  resp_port :: int
  resp_ssrc :: int
  resp_srtp_key :: Buffer
  resp_srtp_salt :: Buffer

record PrepareStreamResponse =
  resp_address :: string
  resp_video :: StreamAddress
  resp_audio :: StreamAddress

text \<open>What the delegate does to the outside, in the order it does it.\<close>

datatype effect =
    Log string
  | LogWith string string
  | LogObject error
  | LogDebug string
  | LogError string
  | LogErrorObject error
  | Spawn string "string list"
  | NewFfmpegProcess FfmpegProcess
  | StopFfmpegProcess FfmpegProcess
  | SnapshotCallback "error + Buffer"
  | PrepareCallback PrepareStreamResponse
  | StreamCallback

record StreamingDelegate =
  ffmpegOpt :: VideoConfig
  name :: "string option"
  videoProcessor :: string
  audio :: "bool option"
  vcodec :: string
  packetSize :: int
  fps :: "int option"
  maxBitrate :: "int option"
  minBitrate :: "int option"
  additionalCommandline :: string
  vflip :: "bool option"
  hflip :: "bool option"
  mapvideo :: string
  mapaudio :: string
  videoFilter :: "string option"
  debug :: "bool option"
  interfaceName :: string
  pendingSessions :: "string \<rightharpoonup> SessionInfo"
  ongoingSessions :: "string \<rightharpoonup> FfmpegProcess"
  effects :: "effect list"

definition emit :: "effect list \<Rightarrow> StreamingDelegate \<Rightarrow> StreamingDelegate" where
  "emit es d = d\<lparr>effects := effects d @ es\<rparr>"

section \<open>The constructor\<close>

text \<open>
  \<open>pathToFfmpeg\<close> is what the module \<open>ffmpeg-for-homebridge\<close> exports. A missing
  \<open>videoConfig\<close> makes the first read of one of its fields throw. The shutdown
  listener that the constructor registers is not part of the model.
\<close>

definition constructor ::
  "string option \<Rightarrow> CameraConfig \<Rightarrow> string option \<Rightarrow> string option \<Rightarrow> error + StreamingDelegate"
where
  "constructor pathToFfmpeg cameraConfig videoProcessor' interfaceName' =
     (case cfg_videoConfig cameraConfig of
        None \<Rightarrow> Inl (TypeError ''Cannot read property 'audio' of undefined'')
      | Some opt \<Rightarrow>
          let maxBitrate' = opt_maxBitrate opt;
              minBitrate' = opt_minBitrate opt;
              minBitrate'' =
                (if truthy_num maxBitrate' \<and>
                    (case minBitrate' of None \<Rightarrow> False | Some m \<Rightarrow> gt_num m maxBitrate')
                 then maxBitrate' else minBitrate')
          in if \<not> truthy_str (opt_source opt) then Inl (Error ''Missing source for camera.'')
             else Inr \<lparr>
               ffmpegOpt = opt,
               name = cfg_name cameraConfig,
               videoProcessor = or_str videoProcessor' (or_str pathToFfmpeg ''ffmpeg''),
               audio = opt_audio opt,
               vcodec = or_str (opt_vcodec opt) ''libx264'',
               packetSize = or_num (opt_packetSize opt) 1316,
               fps = opt_maxFPS opt,
               maxBitrate = maxBitrate',
               minBitrate = minBitrate'',
               additionalCommandline =
                 or_str (opt_additionalCommandline opt) ''-preset ultrafast -tune zerolatency'',
               vflip = opt_vflip opt,
               hflip = opt_hflip opt,
               mapvideo = or_str (opt_mapvideo opt) ''0:0'',
               mapaudio = or_str (opt_mapaudio opt) ''0:1'',
               videoFilter =
                 (if truthy_str (opt_videoFilter opt) then opt_videoFilter opt else None),
               debug = opt_debug opt,
               interfaceName = or_str interfaceName' ''public'',
               pendingSessions = Map.empty,
               ongoingSessions = Map.empty,
               effects = [] \<rparr>)"

section \<open>Stopping a stream\<close>

text \<open>
  The body of the \<open>try\<close> block of \<open>stopStream\<close>. A throwing \<open>stop\<close> leaves the block
  before the \<open>delete\<close>.
\<close>

definition stopStream_try ::
  "(FfmpegProcess \<Rightarrow> error option) \<Rightarrow> string \<Rightarrow> StreamingDelegate \<Rightarrow> completion \<times> StreamingDelegate"
where
  "stopStream_try stop_raises sessionId d =
     (case ongoingSessions d sessionId of
        Some ffmpegProcess \<Rightarrow>
          (case stop_raises ffmpegProcess of
             Some e \<Rightarrow> (Raised e, emit [StopFfmpegProcess ffmpegProcess] d)
           | None \<Rightarrow>
               (Returned,
                emit [Log (''Stopped '' @ show_str (name d) @ '' video stream!'')]
                  ((emit [StopFfmpegProcess ffmpegProcess] d)
                     \<lparr>ongoingSessions := (ongoingSessions d)(sessionId := None)\<rparr>)))
      | None \<Rightarrow>
          (Returned,
           emit [Log (''Stopped '' @ show_str (name d) @ '' video stream!'')]
             (d\<lparr>ongoingSessions := (ongoingSessions d)(sessionId := None)\<rparr>)))"

definition stopStream ::
  "(FfmpegProcess \<Rightarrow> error option) \<Rightarrow> string \<Rightarrow> StreamingDelegate \<Rightarrow> completion \<times> StreamingDelegate"
where
  "stopStream stop_raises sessionId d =
     (case stopStream_try stop_raises sessionId d of
        (Raised e, d') \<Rightarrow>
          (Returned,
           emit [LogError ''Error occurred terminating the video process!'', LogErrorObject e] d')
      | (Returned, d') \<Rightarrow> (Returned, d'))"

section \<open>The command builder\<close>

text \<open>The \<open>switch\<close> on \<open>preserveRatio\<close>, which both handlers contain.\<close>

definition resolution_of :: "string option \<Rightarrow> int \<Rightarrow> int \<Rightarrow> string" where
  "resolution_of preserveRatio width height =
     (if preserveRatio = Some ''W'' then show_num width @ '':-1''
      else if preserveRatio = Some ''H'' then ''-1:'' @ show_num height
      else show_num width @ '':'' @ show_num height)"

text \<open>\<open>filter === '' || filter === null ? 'scale=' + resolution : filter\<close>\<close>

definition effective_filter :: "string option \<Rightarrow> string \<Rightarrow> string option" where
  "effective_filter filter' resolution =
     (if filter' = Some [] \<or> filter' = None then Some (''scale='' @ resolution) else filter')"

text \<open>\<open>(vf.length > 0 ? ' -vf ' + vf.join(',') : '')\<close>\<close>

definition vf_arg :: "string list \<Rightarrow> string" where
  "vf_arg vf = (if length vf > 0 then '' -vf '' @ join '','' vf else [])"

subsection \<open>Snapshot\<close>

record SnapshotRequest =
  snap_width :: int
  snap_height :: int

definition snapshot_width :: "StreamingDelegate \<Rightarrow> SnapshotRequest \<Rightarrow> int" where
  "snapshot_width d request = cap_at (snap_width request) (opt_maxWidth (ffmpegOpt d))"

definition snapshot_height :: "StreamingDelegate \<Rightarrow> SnapshotRequest \<Rightarrow> int" where
  "snapshot_height d request = cap_at (snap_height request) (opt_maxHeight (ffmpegOpt d))"

definition snapshot_resolution :: "StreamingDelegate \<Rightarrow> SnapshotRequest \<Rightarrow> string" where
  "snapshot_resolution d request =
     resolution_of (opt_preserveRatio (ffmpegOpt d))
       (snapshot_width d request) (snapshot_height d request)"

definition snapshot_vf :: "StreamingDelegate \<Rightarrow> SnapshotRequest \<Rightarrow> string list" where
  "snapshot_vf d request =
     (case effective_filter (videoFilter d) (snapshot_resolution d request) of
        None \<Rightarrow> []
      | Some videoFilter' \<Rightarrow>
          if videoFilter' \<noteq> ''none''
          then (if truthy_bool (hflip d) then [''hflip''] else [])
             @ (if truthy_bool (vflip d) then [''vflip''] else [])
             @ [videoFilter']
          else [])"

definition snapshot_imageSource :: "StreamingDelegate \<Rightarrow> string option" where
  "snapshot_imageSource d =
     (if truthy_str (opt_stillImageSource (ffmpegOpt d))
      then opt_stillImageSource (ffmpegOpt d) else opt_source (ffmpegOpt d))"

definition snapshot_command :: "StreamingDelegate \<Rightarrow> SnapshotRequest \<Rightarrow> string" where
  "snapshot_command d request =
     show_str (snapshot_imageSource d) @ '' -frames:v 1''
       @ vf_arg (snapshot_vf d request) @ '' -f image2 -''"

text \<open>
  What \<open>child_process.spawn\<close> does is given from outside: it throws, or it returns a
  child whose events arrive later, in the given order. \<open>Data\<close> is a chunk on the
  child's standard output, \<open>ErrorEvent\<close> its \<open>'error'\<close> event (the process could not be
  spawned or killed), \<open>Close\<close> its \<open>'close'\<close> event.
\<close>

datatype child_event = Data Buffer | ErrorEvent error | Close

datatype spawn_result = SpawnThrows error | Spawned "child_event list"

fun snapshot_events :: "bool \<Rightarrow> Buffer \<Rightarrow> child_event list \<Rightarrow> effect list" where
  "snapshot_events dbg imageBuffer [] = []"
| "snapshot_events dbg imageBuffer (Data data # evs) =
     snapshot_events dbg (imageBuffer @ data) evs"
| "snapshot_events dbg imageBuffer (ErrorEvent e # evs) =
     Log ''An error occurred while making snapshot request''
       # (if dbg then [LogObject e] else []) @ snapshot_events dbg imageBuffer evs"
| "snapshot_events dbg imageBuffer (Close # evs) =
     SnapshotCallback (Inr imageBuffer) # snapshot_events dbg imageBuffer evs"

definition handleSnapshotRequest ::
  "spawn_result \<Rightarrow> SnapshotRequest \<Rightarrow> StreamingDelegate \<Rightarrow> StreamingDelegate"
where
  "handleSnapshotRequest spawn request d =
     (case spawn of
        SpawnThrows err \<Rightarrow> emit [LogErrorObject err, SnapshotCallback (Inl err)] d
      | Spawned evs \<Rightarrow>
          emit
            ([Spawn (videoProcessor d) (split_ws (snapshot_command d request)),
              Log (''Snapshot from '' @ show_str (name d) @ '' at ''
                     @ snapshot_resolution d request)]
             @ (if truthy_bool (debug d)
                then [Log (show_str (name d) @ '' snapshot command: ffmpeg ''
                             @ snapshot_command d request)]
                else [])
             @ snapshot_events (truthy_bool (debug d)) [] evs) d)"

subsection \<open>Stream\<close>

record VideoInfo =
  video_width :: int
  video_height :: int
  video_fps :: int
  video_pt :: int
  video_max_bit_rate :: int
  video_mtu :: int

record AudioInfo =
  audio_pt :: int
  audio_max_bit_rate :: int
  audio_sample_rate :: int

definition stream_width :: "StreamingDelegate \<Rightarrow> VideoInfo \<Rightarrow> int" where
  "stream_width d video = cap_at (video_width video) (opt_maxWidth (ffmpegOpt d))"

definition stream_height :: "StreamingDelegate \<Rightarrow> VideoInfo \<Rightarrow> int" where
  "stream_height d video = cap_at (video_height video) (opt_maxHeight (ffmpegOpt d))"

definition stream_fps :: "StreamingDelegate \<Rightarrow> VideoInfo \<Rightarrow> int" where
  "stream_fps d video = cap_at (video_fps video) (fps d)"

definition stream_resolution :: "StreamingDelegate \<Rightarrow> VideoInfo \<Rightarrow> string" where
  "stream_resolution d video =
     resolution_of (opt_preserveRatio (ffmpegOpt d)) (stream_width d video) (stream_height d video)"

text \<open>
  The two bitrates. Under its guard a limit is a number other than \<open>0\<close>, which
  \<open>or_num\<close> reads; the requested value given as its default is never taken.
\<close>

definition stream_videoBitrate :: "StreamingDelegate \<Rightarrow> VideoInfo \<Rightarrow> int" where
  "stream_videoBitrate d video =
     (let videoBitrate = video_max_bit_rate video
      in if truthy_num (maxBitrate d) \<and> gt_num videoBitrate (maxBitrate d)
         then or_num (maxBitrate d) videoBitrate
         else if truthy_num (minBitrate d) \<and> lt_num videoBitrate (minBitrate d)
         then or_num (minBitrate d) videoBitrate
         else videoBitrate)"

definition stream_audioBitrate :: "StreamingDelegate \<Rightarrow> AudioInfo \<Rightarrow> int" where
  "stream_audioBitrate d audio' =
     (let audioBitrate = audio_max_bit_rate audio'
      in if truthy_num (maxBitrate d) \<and> gt_num audioBitrate (maxBitrate d)
         then or_num (maxBitrate d) audioBitrate
         else audioBitrate)"

definition stream_mtu :: "StreamingDelegate \<Rightarrow> VideoInfo \<Rightarrow> int" where
  "stream_mtu d video = (if packetSize d \<noteq> 0 then packetSize d else video_mtu video)"

definition stream_vf :: "StreamingDelegate \<Rightarrow> VideoInfo \<Rightarrow> string list" where
  "stream_vf d video =
     (case effective_filter (videoFilter d) (stream_resolution d video) of
        None \<Rightarrow> []
      | Some videoFilter' \<Rightarrow>
          if videoFilter' \<noteq> ''none'' \<and> vcodec d \<noteq> ''copy''
          then [videoFilter']
             @ (if truthy_bool (hflip d) then [''hflip''] else [])
             @ (if truthy_bool (vflip d) then [''vflip''] else [])
          else [])"

definition ffmpegVideoArgs :: "StreamingDelegate \<Rightarrow> VideoInfo \<Rightarrow> string" where
  "ffmpegVideoArgs d video =
     '' -map '' @ mapvideo d
     @ '' -vcodec '' @ vcodec d
     @ '' -pix_fmt yuv420p''
     @ '' -r '' @ show_num (stream_fps d video)
     @ '' -f rawvideo''
     @ '' '' @ additionalCommandline d
     @ vf_arg (stream_vf d video)
     @ '' -b:v '' @ show_num (stream_videoBitrate d video) @ ''k''
     @ '' -bufsize '' @ show_num (2 * stream_videoBitrate d video) @ ''k''
     @ '' -maxrate '' @ show_num (stream_videoBitrate d video) @ ''k''
     @ '' -payload_type '' @ show_num (video_pt video)"

definition ffmpegVideoStream :: "StreamingDelegate \<Rightarrow> SessionInfo \<Rightarrow> VideoInfo \<Rightarrow> string" where
  "ffmpegVideoStream d sessionInfo video =
     '' -ssrc '' @ show_num (videoSSRC sessionInfo)
     @ '' -f rtp''
     @ '' -srtp_out_suite AES_CM_128_HMAC_SHA1_80''
     @ '' -srtp_out_params '' @ base64 (videoSRTP sessionInfo)
     @ '' srtp://'' @ address sessionInfo @ '':'' @ show_num (videoPort sessionInfo)
     @ ''?rtcpport='' @ show_num (videoPort sessionInfo)
     @ ''&localrtcpport='' @ show_num (videoPort sessionInfo)
     @ ''&pkt_size='' @ show_num (stream_mtu d video)"

definition ffmpegAudioArgs :: "StreamingDelegate \<Rightarrow> AudioInfo \<Rightarrow> string" where
  "ffmpegAudioArgs d audio' =
     '' -map '' @ mapaudio d
     @ '' -acodec libfdk_aac''
     @ '' -profile:a aac_eld''
     @ '' -flags +global_header''
     @ '' -f null''
     @ '' -ar '' @ show_num (audio_sample_rate audio') @ ''k''
     @ '' -b:a '' @ show_num (stream_audioBitrate d audio') @ ''k''
     @ '' -bufsize '' @ show_num (stream_audioBitrate d audio') @ ''k''
     @ '' -ac 1''
     @ '' -payload_type '' @ show_num (audio_pt audio')"

definition ffmpegAudioStream :: "SessionInfo \<Rightarrow> string" where
  "ffmpegAudioStream sessionInfo =
     '' -ssrc '' @ show_num (audioSSRC sessionInfo)
     @ '' -f rtp''
     @ '' -srtp_out_suite AES_CM_128_HMAC_SHA1_80''
     @ '' -srtp_out_params '' @ base64 (audioSRTP sessionInfo)
     @ '' srtp://'' @ address sessionInfo @ '':'' @ show_num (audioPort sessionInfo)
     @ ''?rtcpport='' @ show_num (audioPort sessionInfo)
     @ ''&localrtcpport='' @ show_num (audioPort sessionInfo)
     @ ''&pkt_size=188''"

text \<open>The string \<open>fcmd\<close> that the start event hands to the process.\<close>

definition stream_command ::
  "StreamingDelegate \<Rightarrow> SessionInfo \<Rightarrow> VideoInfo \<Rightarrow> AudioInfo \<Rightarrow> string"
where
  "stream_command d sessionInfo video audio' =
     show_str (opt_source (ffmpegOpt d))
     @ ffmpegVideoArgs d video
     @ ffmpegVideoStream d sessionInfo video
     @ (if truthy_bool (audio d)
        then ffmpegAudioArgs d audio' @ ffmpegAudioStream sessionInfo else [])
     @ (if truthy_bool (debug d) then '' -loglevel level+verbose'' else [])"

definition starting_message :: "StreamingDelegate \<Rightarrow> VideoInfo \<Rightarrow> string" where
  "starting_message d video =
     ''Starting '' @ show_str (name d) @ '' video stream (''
     @ show_num (stream_width d video) @ ''x'' @ show_num (stream_height d video) @ '', ''
     @ show_num (stream_fps d video) @ '' fps, ''
     @ show_num (stream_videoBitrate d video) @ '' kbps, ''
     @ show_num (stream_mtu d video) @ '' mtu)...''"

section \<open>The session lifecycle\<close>

subsection \<open>Negotiation\<close>

record Source =
  src_port :: int
  src_srtpCryptoSuite :: SRTPCryptoSuites
  src_srtp_key :: Buffer
  src_srtp_salt :: Buffer

record PrepareStreamRequest =
  prep_sessionID :: string
  prep_targetAddress :: string
  prep_addressVersion :: string
  prep_video :: Source
  prep_audio :: Source

text \<open>
  What the host gives \<open>prepareStream\<close>: the two results of \<open>getPort()\<close> (a rejected
  promise is \<open>Inl\<close>), the two results of \<open>generateSynchronisationSource()\<close>, and
  \<open>ip.address(name, family)\<close>, which may throw.
\<close>

record PrepareHost =
  host_getPort1 :: "error + int"
  host_ssrc1 :: int
  host_getPort2 :: "error + int"
  host_ssrc2 :: int
  host_ip_address :: "string \<Rightarrow> string \<Rightarrow> error + string"

definition prepareStream ::
  "PrepareHost \<Rightarrow> PrepareStreamRequest \<Rightarrow> StreamingDelegate \<Rightarrow> completion \<times> StreamingDelegate"
where
  "prepareStream host request d =
     (let sessionId = prep_sessionID request;
          video = prep_video request;
          audio' = prep_audio request
      in case host_getPort1 host of
           Inl e \<Rightarrow> (Raised e, d)
         | Inr videoReturnPort' \<Rightarrow>
        (case host_getPort2 host of
           Inl e \<Rightarrow> (Raised e, d)
         | Inr audioReturnPort' \<Rightarrow>
        (let sessionInfo = \<lparr>
               address = prep_targetAddress request,
               videoPort = src_port video,
               videoReturnPort = videoReturnPort',
               videoCryptoSuite = src_srtpCryptoSuite video,
               videoSRTP = src_srtp_key video @ src_srtp_salt video,
               videoSSRC = host_ssrc1 host,
               audioPort = src_port audio',
               audioReturnPort = audioReturnPort',
               audioCryptoSuite = src_srtpCryptoSuite audio',
               audioSRTP = src_srtp_key audio' @ src_srtp_salt audio',
               audioSSRC = host_ssrc2 host \<rparr>;
             respond = (\<lambda>currentAddress d1.
               (Returned,
                emit [PrepareCallback \<lparr>
                        resp_address = currentAddress,
                        resp_video = \<lparr> resp_port = videoReturnPort', resp_ssrc = host_ssrc1 host,
                                       resp_srtp_key = src_srtp_key video,
                                       resp_srtp_salt = src_srtp_salt video \<rparr>,
                        resp_audio = \<lparr> resp_port = audioReturnPort', resp_ssrc = host_ssrc2 host,
                                       resp_srtp_key = src_srtp_key audio',
                                       resp_srtp_salt = src_srtp_salt audio' \<rparr> \<rparr>]
                  (d1\<lparr>pendingSessions := (pendingSessions d1)(sessionId \<mapsto> sessionInfo)\<rparr>)))
         in case host_ip_address host (interfaceName d) (prep_addressVersion request) of
              Inr currentAddress \<Rightarrow> respond currentAddress d
            | Inl _ \<Rightarrow>
                (let d1 = emit [LogError (''Unable to get '' @ prep_addressVersion request
                                   @ '' address for '' @ interfaceName d
                                   @ ''! Falling back to public.'')] d
                 in case host_ip_address host ''public'' (prep_addressVersion request) of
                      Inr currentAddress \<Rightarrow> respond currentAddress d1
                    | Inl e \<Rightarrow> (Raised e, d1)))))"

subsection \<open>Start, reconfigure, stop\<close>

text \<open>
  A reconfigure request carries new video parameters, which the handler only prints:
  the request holds them as the text \<open>JSON.stringify\<close> gives.
\<close>

datatype StreamingRequest =
    START string VideoInfo AudioInfo
  | RECONFIGURE string string
  | STOP string

text \<open>
  \<open>new_raises\<close> and \<open>stop_raises\<close> say whether \<open>new FfmpegProcess(...)\<close> and
  \<open>ffmpegProcess.stop()\<close> throw. In the start case the first statement that can
  throw is \<open>sessionInfo.address\<close>, which comes before the log line.
\<close>

text \<open>The arguments of \<open>new FfmpegProcess(...)\<close> in the start case.\<close>

definition start_process ::
  "StreamingDelegate \<Rightarrow> string \<Rightarrow> SessionInfo \<Rightarrow> VideoInfo \<Rightarrow> AudioInfo \<Rightarrow> FfmpegProcess"
where
  "start_process d sessionId sessionInfo video audio' = \<lparr>
     proc_title = name d,
     proc_command = stream_command d sessionInfo video audio',
     proc_sessionId = sessionId,
     proc_returnPort = videoReturnPort sessionInfo,
     proc_debug = debug d,
     proc_videoProcessor = videoProcessor d \<rparr>"

definition handleStreamRequest ::
  "(FfmpegProcess \<Rightarrow> error option) \<Rightarrow> (FfmpegProcess \<Rightarrow> error option) \<Rightarrow>
   StreamingRequest \<Rightarrow> StreamingDelegate \<Rightarrow> completion \<times> StreamingDelegate"
where
  "handleStreamRequest new_raises stop_raises request d =
     (case request of
        START sessionId video audio' \<Rightarrow>
          (case pendingSessions d sessionId of
             None \<Rightarrow> (Raised (TypeError ''Cannot read property 'address' of undefined''), d)
           | Some sessionInfo \<Rightarrow>
               (let d1 = emit [LogWith (starting_message d video)
                                 (if truthy_bool (debug d) then ''debug enabled'' else [])] d;
                    ffmpeg = start_process d sessionId sessionInfo video audio'
                in case new_raises ffmpeg of
                     Some e \<Rightarrow> (Raised e, d1)
                   | None \<Rightarrow>
                       (let d2 = emit [NewFfmpegProcess ffmpeg] d1;
                            d3 = d2\<lparr>ongoingSessions := (ongoingSessions d2)(sessionId \<mapsto> ffmpeg)\<rparr>;
                            d4 = d3\<lparr>pendingSessions := (pendingSessions d3)(sessionId := None)\<rparr>
                        in (Returned, d4))))
      | RECONFIGURE sessionId video_json \<Rightarrow>
          (Returned,
           emit [LogDebug (''Received (unsupported) request to reconfigure to: '' @ video_json),
                 StreamCallback] d)
      | STOP sessionId \<Rightarrow>
          (case stopStream stop_raises sessionId d of
             (Raised e, d') \<Rightarrow> (Raised e, d')
           | (Returned, d') \<Rightarrow> (Returned, emit [StreamCallback] d')))"

text \<open>The inbound events of one camera, and a run of them from a given state.\<close>

datatype event =
    Negotiate PrepareHost PrepareStreamRequest
  | Stream StreamingRequest
  | Snapshot spawn_result SnapshotRequest

definition fire ::
  "(FfmpegProcess \<Rightarrow> error option) \<Rightarrow> (FfmpegProcess \<Rightarrow> error option) \<Rightarrow>
   event \<Rightarrow> StreamingDelegate \<Rightarrow> StreamingDelegate"
where
  "fire new_raises stop_raises ev d =
     (case ev of
        Negotiate host request \<Rightarrow> snd (prepareStream host request d)
      | Stream request \<Rightarrow> snd (handleStreamRequest new_raises stop_raises request d)
      | Snapshot spawn request \<Rightarrow> handleSnapshotRequest spawn request d)"

fun run ::
  "(FfmpegProcess \<Rightarrow> error option) \<Rightarrow> (FfmpegProcess \<Rightarrow> error option) \<Rightarrow>
   event list \<Rightarrow> StreamingDelegate \<Rightarrow> StreamingDelegate"
where
  "run new_raises stop_raises [] d = d"
| "run new_raises stop_raises (ev # evs) d =
     run new_raises stop_raises evs (fire new_raises stop_raises ev d)"

section \<open>Properties of states and runs\<close>

text \<open>No session identifier is a key of both maps.\<close>

definition at_most_one_map :: "StreamingDelegate \<Rightarrow> bool" where
  "at_most_one_map d = (dom (pendingSessions d) \<inter> dom (ongoingSessions d) = {})"

text \<open>
  Every negotiation of the run names an identifier that has no active record at the
  moment the negotiation arrives.
\<close>

fun negotiates_inactive ::
  "(FfmpegProcess \<Rightarrow> error option) \<Rightarrow> (FfmpegProcess \<Rightarrow> error option) \<Rightarrow>
   event list \<Rightarrow> StreamingDelegate \<Rightarrow> bool"
where
  "negotiates_inactive new_raises stop_raises [] d = True"
| "negotiates_inactive new_raises stop_raises (ev # evs) d =
     ((case ev of
         Negotiate host request \<Rightarrow> ongoingSessions d (prep_sessionID request) = None
       | _ \<Rightarrow> True)
      \<and> negotiates_inactive new_raises stop_raises evs (fire new_raises stop_raises ev d))"

text \<open>
  The delegate \<open>d\<close> is one the constructor built from the given arguments, at some
  later moment: its session maps and its effects may have changed since.
\<close>

definition configured_by ::
  "string option \<Rightarrow> CameraConfig \<Rightarrow> string option \<Rightarrow> string option \<Rightarrow> StreamingDelegate \<Rightarrow> bool"
where
  "configured_by pathToFfmpeg cameraConfig videoProcessor' interfaceName' d =
     (case constructor pathToFfmpeg cameraConfig videoProcessor' interfaceName' of
        Inl e \<Rightarrow> False
      | Inr d0 \<Rightarrow>
          d = d0\<lparr>pendingSessions := pendingSessions d,
                ongoingSessions := ongoingSessions d,
                effects := effects d\<rparr>)"

definition never_raises :: "FfmpegProcess \<Rightarrow> error option" where
  "never_raises p = None"

definition always_raises :: "FfmpegProcess \<Rightarrow> error option" where
  "always_raises p = Some (Error ''kill EPERM'')"

subsection \<open>Sample inputs\<close>

definition demo_opt :: VideoConfig where
  "demo_opt = \<lparr>
     opt_source = Some ''-i rtsp://cam/live'',
     opt_stillImageSource = None,
     opt_maxWidth = Some 1280,
     opt_maxHeight = Some 720,
     opt_maxFPS = Some 30,
     opt_maxBitrate = Some 300,
     opt_minBitrate = Some 100,
     opt_preserveRatio = None,
     opt_vcodec = None,
     opt_packetSize = None,
     opt_videoFilter = None,
     opt_additionalCommandline = None,
     opt_mapvideo = None,
     opt_mapaudio = None,
     opt_audio = None,
     opt_vflip = None,
     opt_hflip = Some True,
     opt_debug = None \<rparr>"

definition demo_camera :: "VideoConfig \<Rightarrow> CameraConfig" where
  "demo_camera opt = \<lparr> cfg_name = Some ''Porch'', cfg_videoConfig = Some opt \<rparr>"

definition demo_delegate :: "VideoConfig \<Rightarrow> StreamingDelegate" where
  "demo_delegate opt = projr (constructor None (demo_camera opt) None None)"

definition demo_video :: VideoInfo where
  "demo_video = \<lparr> video_width = 1920, video_height = 1080, video_fps = 30, video_pt = 99,
     video_max_bit_rate = 500, video_mtu = 1378 \<rparr>"

definition demo_audio :: AudioInfo where
  "demo_audio = \<lparr> audio_pt = 110, audio_max_bit_rate = 24, audio_sample_rate = 16 \<rparr>"

definition demo_snapshot :: SnapshotRequest where
  "demo_snapshot = \<lparr> snap_width = 1920, snap_height = 1080 \<rparr>"

definition demo_session :: SessionInfo where
  "demo_session = \<lparr> address = ''192.168.1.20'', videoPort = 50000, videoReturnPort = 50010,
     videoCryptoSuite = AES_CM_128_HMAC_SHA1_80, videoSRTP = [1, 2, 3], videoSSRC = 1234,
     audioPort = 50002, audioReturnPort = 50012, audioCryptoSuite = AES_CM_128_HMAC_SHA1_80,
     audioSRTP = [255], audioSSRC = 5678 \<rparr>"

definition demo_ip_address :: "string \<Rightarrow> string \<Rightarrow> error + string" where
  "demo_ip_address interface family = Inr ''192.168.1.5''"

definition demo_host :: PrepareHost where
  "demo_host = \<lparr> host_getPort1 = Inr 50010, host_ssrc1 = 1234, host_getPort2 = Inr 50012,
     host_ssrc2 = 5678, host_ip_address = demo_ip_address \<rparr>"

definition demo_prepare :: PrepareStreamRequest where
  "demo_prepare = \<lparr>
     prep_sessionID = ''s1'',
     prep_targetAddress = ''192.168.1.20'',
     prep_addressVersion = ''ipv4'',
     prep_video = \<lparr> src_port = 50000, src_srtpCryptoSuite = AES_CM_128_HMAC_SHA1_80,
                    src_srtp_key = [1, 2], src_srtp_salt = [3] \<rparr>,
     prep_audio = \<lparr> src_port = 50002, src_srtpCryptoSuite = AES_CM_128_HMAC_SHA1_80,
                    src_srtp_key = [255], src_srtp_salt = [] \<rparr> \<rparr>"

text \<open>A delegate with one pending session, and one with one active session.\<close>

definition demo_pending :: StreamingDelegate where
  "demo_pending = (demo_delegate demo_opt)\<lparr>pendingSessions := [''s1'' \<mapsto> demo_session]\<rparr>"

text \<open>A delegate built from the given configuration, with one pending session.\<close>

definition demo_pending_for :: "VideoConfig \<Rightarrow> StreamingDelegate" where
  "demo_pending_for opt = (demo_delegate opt)\<lparr>pendingSessions := [''s1'' \<mapsto> demo_session]\<rparr>"

definition demo_active :: StreamingDelegate where
  "demo_active = (demo_delegate demo_opt)\<lparr>ongoingSessions :=
     [''s1'' \<mapsto> start_process (demo_delegate demo_opt) ''s1'' demo_session demo_video demo_audio]\<rparr>"

section \<open>Facts about the sample inputs and the operations\<close>

lemma demo_delegate_built:
  "constructor None (demo_camera opt) None None =
     (if truthy_str (opt_source opt) then Inr (demo_delegate opt)
      else Inl (Error ''Missing source for camera.''))"
  by (simp add: demo_delegate_def constructor_def demo_camera_def Let_def)

lemma stopStream_returns: "fst (stopStream stop_raises sid d) = Returned"
  by (simp add: stopStream_def stopStream_try_def emit_def split: option.splits)

lemma stopStream_pending:
  "pendingSessions (snd (stopStream stop_raises sid d)) = pendingSessions d"
  by (simp add: stopStream_def stopStream_try_def emit_def split: option.splits)

lemma stopStream_ongoing:
  "ongoingSessions (snd (stopStream stop_raises sid d)) =
     (case ongoingSessions d sid of
        None \<Rightarrow> ongoingSessions d
      | Some p \<Rightarrow> (case stop_raises p of
                     None \<Rightarrow> (ongoingSessions d)(sid := None)
                   | Some e \<Rightarrow> ongoingSessions d))"
  by (auto simp add: stopStream_def stopStream_try_def emit_def split: option.splits)

lemma constructor_fields:
  assumes "constructor pf cam vp ifn = Inr d0"
  shows "\<exists>opt. cfg_videoConfig cam = Some opt \<and> truthy_str (opt_source opt)
     \<and> ffmpegOpt d0 = opt
     \<and> vcodec d0 = or_str (opt_vcodec opt) ''libx264''
     \<and> packetSize d0 = or_num (opt_packetSize opt) 1316
     \<and> fps d0 = opt_maxFPS opt
     \<and> maxBitrate d0 = opt_maxBitrate opt
     \<and> minBitrate d0 =
          (if truthy_num (opt_maxBitrate opt) \<and>
              (case opt_minBitrate opt of None \<Rightarrow> False
               | Some m \<Rightarrow> gt_num m (opt_maxBitrate opt))
           then opt_maxBitrate opt else opt_minBitrate opt)
     \<and> videoFilter d0 = (if truthy_str (opt_videoFilter opt) then opt_videoFilter opt else None)
     \<and> hflip d0 = opt_hflip opt \<and> vflip d0 = opt_vflip opt
     \<and> audio d0 = opt_audio opt \<and> debug d0 = opt_debug opt
     \<and> pendingSessions d0 = Map.empty \<and> ongoingSessions d0 = Map.empty"
proof (cases "cfg_videoConfig cam")
  case None
  with assms show ?thesis by (simp add: constructor_def)
next
  case (Some opt)
  show ?thesis
  proof (cases "truthy_str (opt_source opt)")
    case False
    with assms Some show ?thesis by (simp add: constructor_def Let_def)
  next
    case True
    with assms Some have "d0 = projr (constructor pf cam vp ifn)" by simp
    with Some True show ?thesis by (simp add: constructor_def Let_def)
  qed
qed


lemma configured_by_constructor:
  assumes "configured_by pf cam vp ifn d"
  shows "\<exists>d0. constructor pf cam vp ifn = Inr d0
     \<and> ffmpegOpt d = ffmpegOpt d0 \<and> vcodec d = vcodec d0 \<and> packetSize d = packetSize d0
     \<and> fps d = fps d0 \<and> maxBitrate d = maxBitrate d0 \<and> minBitrate d = minBitrate d0
     \<and> videoFilter d = videoFilter d0 \<and> hflip d = hflip d0 \<and> vflip d = vflip d0
     \<and> audio d = audio d0 \<and> debug d = debug d0"
proof (cases "constructor pf cam vp ifn")
  case (Inl e)
  with assms show ?thesis by (simp add: configured_by_def)
next
  case (Inr d0)
  with assms have eq:
    "d = d0\<lparr>pendingSessions := pendingSessions d, ongoingSessions := ongoingSessions d,
            effects := effects d\<rparr>"
    by (simp only: configured_by_def sum.case)
  have "ffmpegOpt d = ffmpegOpt d0" by (subst eq) simp
  moreover have "vcodec d = vcodec d0" by (subst eq) simp
  moreover have "packetSize d = packetSize d0" by (subst eq) simp
  moreover have "fps d = fps d0"  by (subst eq) simp
  moreover have "maxBitrate d = maxBitrate d0"  by (subst eq) simp
  moreover have "minBitrate d = minBitrate d0"  by (subst eq) simp
  moreover have "videoFilter d = videoFilter d0"  by (subst eq) simp
  moreover have "hflip d = hflip d0"  by (subst eq) simp
  moreover have "vflip d = vflip d0"  by (subst eq) simp
  moreover have "audio d = audio d0"  by (subst eq) simp
  moreover have "debug d = debug d0"  by (subst eq) simp
  ultimately show ?thesis using Inr by blast
qed

lemma configured_by_fields:
  assumes "configured_by pf cam vp ifn d"
  shows "\<exists>opt. cfg_videoConfig cam = Some opt \<and> truthy_str (opt_source opt)
     \<and> ffmpegOpt d = opt
     \<and> vcodec d = or_str (opt_vcodec opt) ''libx264''
     \<and> packetSize d = or_num (opt_packetSize opt) 1316
     \<and> fps d = opt_maxFPS opt
     \<and> maxBitrate d = opt_maxBitrate opt
     \<and> minBitrate d =
          (if truthy_num (opt_maxBitrate opt) \<and>
              (case opt_minBitrate opt of None \<Rightarrow> False
               | Some m \<Rightarrow> gt_num m (opt_maxBitrate opt))
           then opt_maxBitrate opt else opt_minBitrate opt)
     \<and> videoFilter d = (if truthy_str (opt_videoFilter opt) then opt_videoFilter opt else None)
     \<and> hflip d = opt_hflip opt \<and> vflip d = opt_vflip opt
     \<and> audio d = opt_audio opt \<and> debug d = opt_debug opt"
proof -
  from configured_by_constructor [OF assms] obtain d0 where
    c: "constructor pf cam vp ifn = Inr d0" and
    f: "ffmpegOpt d = ffmpegOpt d0" "vcodec d = vcodec d0" "packetSize d = packetSize d0"
     "fps d = fps d0" "maxBitrate d = maxBitrate d0" "minBitrate d = minBitrate d0"
     "videoFilter d = videoFilter d0" "hflip d = hflip d0" "vflip d = vflip d0"
     "audio d = audio d0" "debug d = debug d0"
    by blast
  from constructor_fields [OF c] show ?thesis unfolding f by blast
qed

lemmas js_defs = truthy_num_def truthy_str_def truthy_bool_def or_str_def or_num_def
  gt_num_def lt_num_def cap_at_def show_num_def show_str_def digit_char_def show_nat.simps
  b64_char_def

lemmas builder_defs = resolution_of_def effective_filter_def vf_arg_def
  snapshot_width_def snapshot_height_def snapshot_resolution_def snapshot_vf_def
  snapshot_imageSource_def snapshot_command_def
  stream_width_def stream_height_def stream_fps_def stream_resolution_def
  stream_videoBitrate_def stream_audioBitrate_def stream_mtu_def stream_vf_def
  ffmpegVideoArgs_def ffmpegVideoStream_def ffmpegAudioArgs_def ffmpegAudioStream_def
  stream_command_def starting_message_def

lemmas demo_defs = demo_opt_def demo_camera_def demo_delegate_def demo_video_def
  demo_audio_def demo_snapshot_def demo_session_def constructor_def

lemma handleStreamRequest_start_missing:
  "pendingSessions d sid = None \<Longrightarrow>
   handleStreamRequest new_raises stop_raises (START sid video audio') d
     = (Raised (TypeError ''Cannot read property 'address' of undefined''), d)"
  by (simp add: handleStreamRequest_def)

lemma handleStreamRequest_start:
  assumes "pendingSessions d sid = Some info"
    and "new_raises (start_process d sid info video audio') = None"
  shows "fst (handleStreamRequest new_raises stop_raises (START sid video audio') d) = Returned"
    and "pendingSessions (snd (handleStreamRequest new_raises stop_raises (START sid video audio') d))
           = (pendingSessions d)(sid := None)"
    and "ongoingSessions (snd (handleStreamRequest new_raises stop_raises (START sid video audio') d))
           = (ongoingSessions d)(sid \<mapsto> start_process d sid info video audio')"
  using assms by (simp_all add: handleStreamRequest_def emit_def Let_def)

lemma demo_stream_command:
  "stream_command (demo_delegate demo_opt) demo_session demo_video demo_audio =
   ''-i rtsp://cam/live -map 0:0 -vcodec libx264 -pix_fmt yuv420p -r 30 -f rawvideo -preset ultrafast -tune zerolatency -vf scale=1280:720,hflip -b:v 300k -bufsize 600k -maxrate 300k -payload_type 99 -ssrc 1234 -f rtp -srtp_out_suite AES_CM_128_HMAC_SHA1_80 -srtp_out_params AQID srtp://192.168.1.20:50000?rtcpport=50000&localrtcpport=50000&pkt_size=1316''"
  by (simp add: js_defs builder_defs demo_defs Let_def)

lemma demo_started_command:
  "map_option proc_command
     (ongoingSessions (snd (handleStreamRequest never_raises never_raises
        (START ''s1'' demo_video demo_audio) demo_pending)) ''s1'') =
   Some (stream_command (demo_delegate demo_opt) demo_session demo_video demo_audio)"
proof -
  have p: "pendingSessions demo_pending ''s1'' = Some demo_session"
    by (simp add: demo_pending_def)
  have c: "stream_command demo_pending demo_session demo_video demo_audio
             = stream_command (demo_delegate demo_opt) demo_session demo_video demo_audio"
    unfolding demo_stream_command
    by (simp add: js_defs builder_defs demo_defs demo_pending_def Let_def)
  show ?thesis
    by (simp add: handleStreamRequest_start(3) [OF p] never_raises_def start_process_def c)
qed

lemma demo_copy_snapshot_command:
  "snapshot_command (demo_delegate (demo_opt\<lparr>opt_vcodec := Some ''copy''\<rparr>)) demo_snapshot
     = ''-i rtsp://cam/live -frames:v 1 -vf hflip,scale=1280:720 -f image2 -''"
  by (simp add: js_defs builder_defs demo_defs Let_def)

lemma demo_configured:
  "truthy_str (opt_source opt) \<Longrightarrow>
   configured_by None (demo_camera opt) None None
     ((demo_delegate opt)\<lparr>pendingSessions := P, ongoingSessions := O', effects := E\<rparr>)"
  by (simp add: configured_by_def demo_delegate_built)

lemma demo_configured_fresh:
  "truthy_str (opt_source opt) \<Longrightarrow>
   configured_by None (demo_camera opt) None None (demo_delegate opt)"
  by (simp add: configured_by_def demo_delegate_built)

lemma configured_by_opt:
  assumes "configured_by pf cam vp ifn d" and "cfg_videoConfig cam = Some opt"
  shows "ffmpegOpt d = opt"
    and "maxBitrate d = opt_maxBitrate opt"
    and "minBitrate d =
          (if truthy_num (opt_maxBitrate opt) \<and>
              (case opt_minBitrate opt of None \<Rightarrow> False
               | Some m \<Rightarrow> gt_num m (opt_maxBitrate opt))
           then opt_maxBitrate opt else opt_minBitrate opt)"
    and "packetSize d = or_num (opt_packetSize opt) 1316"
    and "audio d = opt_audio opt" and "debug d = opt_debug opt"
  using configured_by_fields [OF assms(1)] assms(2) by auto

lemma configured_by_has_opt:
  assumes "configured_by pf cam vp ifn d"
  shows "cfg_videoConfig cam = Some (ffmpegOpt d)"
  using configured_by_fields [OF assms] by auto

lemma configured_min_le_max:
  assumes "configured_by pf cam vp ifn d"
    and "maxBitrate d = Some mb" and "mb \<noteq> 0" and "minBitrate d = Some nb"
  shows "nb \<le> mb"
proof -
  note c = configured_by_opt [OF assms(1) configured_by_has_opt [OF assms(1)]]
  from c(2) assms(2) have o: "opt_maxBitrate (ffmpegOpt d) = Some mb" by simp
  from c(3) assms(3,4) show ?thesis
    by (auto simp add: o truthy_num_def gt_num_def split: if_splits option.splits)
qed

lemma at_most_one_map_iff:
  "at_most_one_map d = (\<forall>s. pendingSessions d s = None \<or> ongoingSessions d s = None)"
proof
  assume a: "at_most_one_map d"
  show "\<forall>s. pendingSessions d s = None \<or> ongoingSessions d s = None"
  proof (rule allI, rule ccontr)
    fix s
    assume "\<not> (pendingSessions d s = None \<or> ongoingSessions d s = None)"
    then have "s \<in> dom (pendingSessions d) \<inter> dom (ongoingSessions d)" by auto
    with a show False by (simp add: at_most_one_map_def)
  qed
next
  assume "\<forall>s. pendingSessions d s = None \<or> ongoingSessions d s = None"
  then show "at_most_one_map d"
    unfolding at_most_one_map_def by (metis domIff disjoint_iff)
qed

lemma handleStreamRequest_keeps_disjoint:
  assumes "at_most_one_map d"
  shows "at_most_one_map (snd (handleStreamRequest new_raises stop_raises request d))"
proof (cases request)
  case (START sid video audio')
  show ?thesis
  proof (cases "pendingSessions d sid")
    case None
    with START assms show ?thesis by (simp add: handleStreamRequest_def)
  next
    case (Some info)
    show ?thesis
    proof (cases "new_raises (start_process d sid info video audio')")
      case None
      from assms show ?thesis
        by (simp add: START at_most_one_map_iff
            handleStreamRequest_start(2,3) [where new_raises = new_raises, OF Some None])
    next
      case (Some e)
      with START \<open>pendingSessions d sid = Some info\<close> assms show ?thesis
        by (simp add: handleStreamRequest_def Let_def emit_def at_most_one_map_iff)
    qed
  qed
next
  case (RECONFIGURE sid json)
  with assms show ?thesis by (simp add: handleStreamRequest_def emit_def at_most_one_map_iff)
next
  case (STOP sid)
  have r: "handleStreamRequest new_raises stop_raises (STOP sid) d =
        (Returned, emit [StreamCallback] (snd (stopStream stop_raises sid d)))"
    using stopStream_returns [of stop_raises sid d]
    by (cases "stopStream stop_raises sid d") (simp add: handleStreamRequest_def)
  have "\<And>s. ongoingSessions d s = None \<Longrightarrow>
          ongoingSessions (snd (stopStream stop_raises sid d)) s = None"
    by (simp add: stopStream_ongoing split: option.splits)
  with assms show ?thesis
    by (auto simp add: STOP r emit_def at_most_one_map_iff stopStream_pending)
qed

lemma prepareStream_maps:
  "ongoingSessions (snd (prepareStream host request d)) = ongoingSessions d"
  "pendingSessions (snd (prepareStream host request d)) = pendingSessions d
   \<or> (\<exists>info. pendingSessions (snd (prepareStream host request d))
          = (pendingSessions d)(prep_sessionID request \<mapsto> info))"
  by (auto simp add: prepareStream_def Let_def emit_def split: sum.splits)

lemma prepareStream_keeps_disjoint:
  assumes "at_most_one_map d" and "ongoingSessions d (prep_sessionID request) = None"
  shows "at_most_one_map (snd (prepareStream host request d))"
proof -
  have "pendingSessions (snd (prepareStream host request d)) s = None
        \<or> ongoingSessions (snd (prepareStream host request d)) s = None" for s
  proof (cases "s = prep_sessionID request")
    case True
    with assms(2) show ?thesis by (simp add: prepareStream_maps(1))
  next
    case False
    from assms(1) have "pendingSessions d s = None \<or> ongoingSessions d s = None"
      by (simp add: at_most_one_map_iff)
    with False prepareStream_maps(2) [of host request d] show ?thesis
      by (auto simp add: prepareStream_maps(1))
  qed
  then show ?thesis by (simp add: at_most_one_map_iff)
qed

lemma handleSnapshotRequest_maps:
  "ongoingSessions (handleSnapshotRequest spawn request d) = ongoingSessions d"
  "pendingSessions (handleSnapshotRequest spawn request d) = pendingSessions d"
  by (simp_all add: handleSnapshotRequest_def emit_def split: spawn_result.splits)

lemma run_keeps_disjoint:
  "at_most_one_map d \<Longrightarrow> negotiates_inactive new_raises stop_raises evs d \<Longrightarrow>
   at_most_one_map (run new_raises stop_raises evs d)"
proof (induction evs arbitrary: d)
  case Nil
  then show ?case by simp
next
  case (Cons ev evs)
  have "at_most_one_map (fire new_raises stop_raises ev d)"
  proof (cases ev)
    case (Negotiate host request)
    with Cons.prems show ?thesis
      by (simp add: fire_def prepareStream_keeps_disjoint)
  next
    case (Stream request)
    with Cons.prems show ?thesis
      by (simp add: fire_def handleStreamRequest_keeps_disjoint)
  next
    case (Snapshot spawn request)
    with Cons.prems show ?thesis
      by (simp add: fire_def at_most_one_map_iff handleSnapshotRequest_maps)
  qed
  with Cons show ?case by simp
qed

lemma negotiates_inactive_take:
  "negotiates_inactive new_raises stop_raises evs d \<Longrightarrow>
   negotiates_inactive new_raises stop_raises (take n evs) d"
proof (induction evs arbitrary: n d)
  case Nil
  then show ?case by simp
next
  case (Cons ev evs)
  then show ?case by (cases n) simp_all
qed

lemma demo_negotiate:
  "pendingSessions (fire never_raises never_raises (Negotiate demo_host demo_prepare) d)
     = (pendingSessions d)(''s1'' \<mapsto> \<lparr> address = ''192.168.1.20'', videoPort = 50000,
         videoReturnPort = 50010, videoCryptoSuite = AES_CM_128_HMAC_SHA1_80,
         videoSRTP = [1, 2, 3], videoSSRC = 1234, audioPort = 50002, audioReturnPort = 50012,
         audioCryptoSuite = AES_CM_128_HMAC_SHA1_80, audioSRTP = [255], audioSSRC = 5678 \<rparr>)"
  "ongoingSessions (fire never_raises never_raises (Negotiate demo_host demo_prepare) d)
     = ongoingSessions d"
  by (simp_all add: fire_def prepareStream_def demo_host_def demo_prepare_def
      demo_ip_address_def emit_def Let_def)

lemma demo_start:
  "pendingSessions d ''s1'' = Some info \<Longrightarrow>
   pendingSessions (fire never_raises never_raises
      (Stream (START ''s1'' demo_video demo_audio)) d) = (pendingSessions d)(''s1'' := None)"
  "pendingSessions d ''s1'' = Some info \<Longrightarrow>
   ongoingSessions (fire never_raises never_raises
      (Stream (START ''s1'' demo_video demo_audio)) d)
     = (ongoingSessions d)(''s1'' \<mapsto> start_process d ''s1'' info demo_video demo_audio)"
  by (simp_all add: fire_def never_raises_def
      handleStreamRequest_start(2,3) [where new_raises = never_raises])

lemma audio_bitrate_values:
  assumes "configured_by pf cam vp ifn d"
  shows "(maxBitrate d = Some mb \<and> mb \<noteq> 0 \<and> audio_max_bit_rate a > mb
            \<longrightarrow> stream_audioBitrate d a = mb)
   \<and> (minBitrate d = Some nb \<and> audio_max_bit_rate a < nb
            \<longrightarrow> stream_audioBitrate d a = audio_max_bit_rate a)
   \<and> stream_audioBitrate d a \<le> audio_max_bit_rate a
   \<and> stream_audioBitrate (d\<lparr>minBitrate := x\<rparr>) a = stream_audioBitrate d a"
proof -
  have 1: "maxBitrate d = Some mb \<and> mb \<noteq> 0 \<and> audio_max_bit_rate a > mb
            \<longrightarrow> stream_audioBitrate d a = mb"
    by (simp add: stream_audioBitrate_def truthy_num_def gt_num_def or_num_def Let_def)
  have 2: "minBitrate d = Some nb \<and> audio_max_bit_rate a < nb
            \<longrightarrow> stream_audioBitrate d a = audio_max_bit_rate a"
  proof (cases "maxBitrate d")
    case None
    then show ?thesis by (simp add: stream_audioBitrate_def truthy_num_def Let_def)
  next
    case (Some mb')
    show ?thesis
    proof (cases "mb' = 0")
      case True
      with Some show ?thesis by (simp add: stream_audioBitrate_def truthy_num_def Let_def)
    next
      case False
      show ?thesis
      proof (intro impI, elim conjE)
        assume n: "minBitrate d = Some nb" and l: "audio_max_bit_rate a < nb"
        from configured_min_le_max [OF assms Some False n] l
        show "stream_audioBitrate d a = audio_max_bit_rate a"
          by (simp add: stream_audioBitrate_def Some gt_num_def Let_def)
      qed
    qed
  qed
  have 3: "stream_audioBitrate d a \<le> audio_max_bit_rate a"
    by (auto simp add: stream_audioBitrate_def truthy_num_def gt_num_def or_num_def Let_def
        split: option.splits)
  have 4: "stream_audioBitrate (d\<lparr>minBitrate := x\<rparr>) a = stream_audioBitrate d a"
    by (simp add: stream_audioBitrate_def Let_def cong: if_cong)
  from 1 2 3 4 show ?thesis by blast
qed



lemma launched_command:
  assumes "pendingSessions d sid = Some info"
    and "new_raises (start_process d sid info video audio') = None"
  shows "map_option proc_command
           (ongoingSessions (snd (handleStreamRequest new_raises stop_raises
              (START sid video audio') d)) sid)
         = Some (stream_command d info video audio')"
  by (simp add: handleStreamRequest_start(3) [where new_raises = new_raises, OF assms]
      start_process_def)

lemma demo_launched:
  "map_option proc_command
     (ongoingSessions (snd (handleStreamRequest never_raises never_raises
        (START ''s1'' video audio') (demo_pending_for opt))) ''s1'')
   = Some (stream_command (demo_pending_for opt) demo_session video audio')"
  by (simp add: launched_command [where new_raises = never_raises] demo_pending_for_def
      never_raises_def)

lemma demo_pending_for_configured:
  "truthy_str (opt_source opt) \<Longrightarrow>
   configured_by None (demo_camera opt) None None (demo_pending_for opt)"
  by (simp add: configured_by_def demo_delegate_built demo_pending_for_def)

section \<open>The claims\<close>

text \<open>
  C1 (the code differs). A start event for an identifier with no pending record reads
  \<open>sessionInfo.address\<close> of \<open>undefined\<close>: the handler throws a \<open>TypeError\<close>. It does
  so before it logs, launches a process or writes a map, so the state is the one before
  the event. Evaluated here for the identifier \<open>s1\<close> on a freshly built delegate.
\<close>

theorem start_without_pending_raises:
  "pendingSessions (demo_delegate demo_opt) ''s1'' = None
   \<and> handleStreamRequest never_raises never_raises (START ''s1'' demo_video demo_audio)
        (demo_delegate demo_opt)
      = (Raised (TypeError ''Cannot read property 'address' of undefined''),
         demo_delegate demo_opt)"
  by (simp add: handleStreamRequest_def demo_delegate_def constructor_def demo_camera_def
      demo_opt_def truthy_str_def Let_def)

text \<open>
  C2, as stated, fails: \<open>stopStream\<close> never touches the pending map, so an identifier
  that is only pending is still pending afterwards.
\<close>

theorem stopStream_keeps_pending:
  "pendingSessions (snd (stopStream never_raises ''s1'' demo_pending)) ''s1''
     = Some demo_session"
  by (simp add: stopStream_pending demo_pending_def)

text \<open>
  C2, amended. For every state and identifier, \<open>stopStream\<close> returns without raising
  (whether or not the process's \<open>stop\<close> throws) and leaves the pending map as it was;
  if there is no active record for the identifier, or the \<open>stop\<close> of the active
  record's process does not throw, the identifier has no active record afterwards; and
  a second call right after the first changes neither map.
\<close>

theorem stopStream_safe:
  "fst (stopStream stop_raises sid d) = Returned
   \<and> pendingSessions (snd (stopStream stop_raises sid d)) = pendingSessions d
   \<and> ((case ongoingSessions d sid of None \<Rightarrow> True | Some p \<Rightarrow> stop_raises p = None)
        \<longrightarrow> ongoingSessions (snd (stopStream stop_raises sid d)) sid = None)
   \<and> ongoingSessions (snd (stopStream stop_raises sid (snd (stopStream stop_raises sid d))))
       = ongoingSessions (snd (stopStream stop_raises sid d))
   \<and> pendingSessions (snd (stopStream stop_raises sid (snd (stopStream stop_raises sid d))))
       = pendingSessions (snd (stopStream stop_raises sid d))"
  by (auto simp add: stopStream_returns stopStream_pending stopStream_ongoing
      split: option.splits)

theorem stopStream_safe_witness:
  "ongoingSessions demo_active ''s1'' \<noteq> None
   \<and> fst (stopStream never_raises ''s1'' demo_active) = Returned
   \<and> ongoingSessions (snd (stopStream never_raises ''s1'' demo_active)) ''s1'' = None
   \<and> ongoingSessions (snd (stopStream never_raises ''s1''
         (snd (stopStream never_raises ''s1'' demo_active)))) ''s1'' = None
   \<and> fst (stopStream always_raises ''s1'' demo_active) = Returned"
  using stopStream_safe [of never_raises "''s1''" demo_active]
    stopStream_safe [of always_raises "''s1''" demo_active]
  by (simp add: demo_active_def never_raises_def)

text \<open>
  C3 (the code differs). The snapshot command lists the flip filters before the scale
  filter, as its comment asks; the stream command pushes the scale (or custom) filter
  first and the flip filters after it. Evaluated for a camera with \<open>hflip\<close> set and
  the default scale filter: the snapshot's list, the stream's list, and the command the
  start event launches.
\<close>

theorem stream_puts_scale_before_flip:
  "snapshot_vf (demo_delegate demo_opt) demo_snapshot = [''hflip'', ''scale=1280:720'']
   \<and> stream_vf (demo_delegate demo_opt) demo_video = [''scale=1280:720'', ''hflip'']
   \<and> map_option proc_command
        (ongoingSessions (snd (handleStreamRequest never_raises never_raises
           (START ''s1'' demo_video demo_audio) demo_pending)) ''s1'') =
      Some ''-i rtsp://cam/live -map 0:0 -vcodec libx264 -pix_fmt yuv420p -r 30 -f rawvideo -preset ultrafast -tune zerolatency -vf scale=1280:720,hflip -b:v 300k -bufsize 600k -maxrate 300k -payload_type 99 -ssrc 1234 -f rtp -srtp_out_suite AES_CM_128_HMAC_SHA1_80 -srtp_out_params AQID srtp://192.168.1.20:50000?rtcpport=50000&localrtcpport=50000&pkt_size=1316''"
proof -
  have "snapshot_vf (demo_delegate demo_opt) demo_snapshot = [''hflip'', ''scale=1280:720'']"
    by (simp add: js_defs builder_defs demo_defs Let_def)
  moreover have "stream_vf (demo_delegate demo_opt) demo_video = [''scale=1280:720'', ''hflip'']"
    by (simp add: js_defs builder_defs demo_defs Let_def)
  ultimately show ?thesis
    by (simp only: demo_started_command demo_stream_command simp_thms)
qed

text \<open>
  C7, as stated, fails for the snapshot command: the snapshot handler never reads the
  codec, so with the codec \<open>copy\<close> and \<open>hflip\<close> set it still emits \<open>-vf\<close>.
\<close>

theorem snapshot_filters_with_copy_codec:
  "vcodec (demo_delegate (demo_opt\<lparr>opt_vcodec := Some ''copy''\<rparr>)) = ''copy''
   \<and> effects (handleSnapshotRequest (Spawned [Close]) demo_snapshot
                (demo_delegate (demo_opt\<lparr>opt_vcodec := Some ''copy''\<rparr>)))
      = [Spawn ''ffmpeg'' [''-i'', ''rtsp://cam/live'', ''-frames:v'', ''1'', ''-vf'',
                           ''hflip,scale=1280:720'', ''-f'', ''image2'', ''-''],
         Log ''Snapshot from Porch at 1280:720'',
         SnapshotCallback (Inr [])]"
proof -
  have v: "vcodec (demo_delegate (demo_opt\<lparr>opt_vcodec := Some ''copy''\<rparr>)) = ''copy''"
    by (simp add: demo_defs js_defs Let_def)
  have s: "split_ws ''-i rtsp://cam/live -frames:v 1 -vf hflip,scale=1280:720 -f image2 -''
     = [''-i'', ''rtsp://cam/live'', ''-frames:v'', ''1'', ''-vf'',
                           ''hflip,scale=1280:720'', ''-f'', ''image2'', ''-'']"
    by code_simp
  have r: "snapshot_resolution (demo_delegate (demo_opt\<lparr>opt_vcodec := Some ''copy''\<rparr>)) demo_snapshot = ''1280:720''"
    by (simp add: js_defs builder_defs demo_defs Let_def)
  have e: "effects (demo_delegate (demo_opt\<lparr>opt_vcodec := Some ''copy''\<rparr>)) = []"
    "name (demo_delegate (demo_opt\<lparr>opt_vcodec := Some ''copy''\<rparr>)) = Some ''Porch''"
    "debug (demo_delegate (demo_opt\<lparr>opt_vcodec := Some ''copy''\<rparr>)) = None"
    "videoProcessor (demo_delegate (demo_opt\<lparr>opt_vcodec := Some ''copy''\<rparr>)) = ''ffmpeg''"
    by (simp_all add: demo_defs js_defs Let_def)
  show ?thesis
    by (simp add: v handleSnapshotRequest_def emit_def demo_copy_snapshot_command s r e
        truthy_bool_def show_str_def)
qed

text \<open>
  C7, amended. In the stream command, when the effective codec is \<open>copy\<close> the filter
  list is empty and the video arguments carry no \<open>-vf\<close>, whatever the flip flags and
  the filter are. The snapshot command is the same for every codec.
\<close>

theorem copy_codec_suppresses_stream_filters:
  "vcodec d = ''copy'' \<Longrightarrow>
     stream_vf d video = []
   \<and> ffmpegVideoArgs d video =
       '' -map '' @ mapvideo d @ '' -vcodec copy -pix_fmt yuv420p -r ''
       @ show_num (stream_fps d video) @ '' -f rawvideo '' @ additionalCommandline d
       @ '' -b:v '' @ show_num (stream_videoBitrate d video)
       @ ''k -bufsize '' @ show_num (2 * stream_videoBitrate d video)
       @ ''k -maxrate '' @ show_num (stream_videoBitrate d video)
       @ ''k -payload_type '' @ show_num (video_pt video)
   \<and> snapshot_command (d\<lparr>vcodec := c\<rparr>) request = snapshot_command d request"
proof -
  assume v: "vcodec d = ''copy''"
  have 1: "stream_vf d video = []"
    by (simp add: stream_vf_def v split: option.splits)
  have 2: "snapshot_command (d\<lparr>vcodec := c\<rparr>) request = snapshot_command d request"
    by (simp add: snapshot_command_def snapshot_imageSource_def snapshot_vf_def
        snapshot_resolution_def snapshot_width_def snapshot_height_def)
  show ?thesis
    by (simp add: 1 2 ffmpegVideoArgs_def vf_arg_def v)
qed

theorem copy_codec_suppresses_stream_filters_witness:
  "vcodec (demo_delegate (demo_opt\<lparr>opt_vcodec := Some ''copy''\<rparr>)) = ''copy''
   \<and> truthy_bool (hflip (demo_delegate (demo_opt\<lparr>opt_vcodec := Some ''copy''\<rparr>)))
   \<and> stream_vf (demo_delegate (demo_opt\<lparr>opt_vcodec := Some ''copy''\<rparr>)) demo_video = []
   \<and> ffmpegVideoArgs (demo_delegate (demo_opt\<lparr>opt_vcodec := Some ''copy''\<rparr>)) demo_video =
       '' -map 0:0 -vcodec copy -pix_fmt yuv420p -r 30 -f rawvideo -preset ultrafast -tune zerolatency -b:v 300k -bufsize 600k -maxrate 300k -payload_type 99''"
proof -
  have v: "vcodec (demo_delegate (demo_opt\<lparr>opt_vcodec := Some ''copy''\<rparr>)) = ''copy''"
    by (simp add: demo_defs js_defs Let_def)
  have h: "truthy_bool (hflip (demo_delegate (demo_opt\<lparr>opt_vcodec := Some ''copy''\<rparr>)))"
    by (simp add: demo_defs js_defs Let_def)
  have a: "ffmpegVideoArgs (demo_delegate (demo_opt\<lparr>opt_vcodec := Some ''copy''\<rparr>)) demo_video =
       '' -map 0:0 -vcodec copy -pix_fmt yuv420p -r 30 -f rawvideo -preset ultrafast -tune zerolatency -b:v 300k -bufsize 600k -maxrate 300k -payload_type 99''"
    by (simp add: demo_defs js_defs builder_defs Let_def)
  from copy_codec_suppresses_stream_filters [OF v, of demo_video]
  show ?thesis using v h a by simp
qed

text \<open>
  C9. When the configured video filter is exactly \<open>none\<close>, both filter lists are
  empty, whatever the flip flags are: the snapshot command is the image source followed
  by \<open>-frames:v 1 -f image2 -\<close>, and the stream's video arguments go from the
  additional command line straight to \<open>-b:v\<close>.
\<close>

theorem filter_none_emits_no_vf:
  assumes "configured_by pf cam vp ifn d"
    and "cfg_videoConfig cam = Some opt"
    and "opt_videoFilter opt = Some ''none''"
  shows "snapshot_vf d request = []
   \<and> stream_vf d video = []
   \<and> snapshot_command d request = show_str (snapshot_imageSource d) @ '' -frames:v 1 -f image2 -''
   \<and> ffmpegVideoArgs d video =
       '' -map '' @ mapvideo d @ '' -vcodec '' @ vcodec d @ '' -pix_fmt yuv420p -r ''
       @ show_num (stream_fps d video) @ '' -f rawvideo '' @ additionalCommandline d
       @ '' -b:v '' @ show_num (stream_videoBitrate d video)
       @ ''k -bufsize '' @ show_num (2 * stream_videoBitrate d video)
       @ ''k -maxrate '' @ show_num (stream_videoBitrate d video)
       @ ''k -payload_type '' @ show_num (video_pt video)"
proof -
  from configured_by_fields [OF assms(1)] assms(2,3)
  have f: "videoFilter d = Some ''none''"
    by (auto simp add: truthy_str_def)
  have 1: "snapshot_vf d request = []"
    by (simp add: snapshot_vf_def effective_filter_def f)
  have 2: "stream_vf d video = []"
    by (simp add: stream_vf_def effective_filter_def f)
  show ?thesis
    by (simp add: 1 2 snapshot_command_def ffmpegVideoArgs_def vf_arg_def)
qed

theorem filter_none_emits_no_vf_witness:
  "truthy_bool (opt_hflip (demo_opt\<lparr>opt_videoFilter := Some ''none''\<rparr>))
   \<and> snapshot_vf (demo_delegate (demo_opt\<lparr>opt_videoFilter := Some ''none''\<rparr>)) demo_snapshot = []
   \<and> stream_vf (demo_delegate (demo_opt\<lparr>opt_videoFilter := Some ''none''\<rparr>)) demo_video = []
   \<and> snapshot_command (demo_delegate (demo_opt\<lparr>opt_videoFilter := Some ''none''\<rparr>)) demo_snapshot
       = ''-i rtsp://cam/live -frames:v 1 -f image2 -''"
proof -
  have s: "truthy_str (opt_source (demo_opt\<lparr>opt_videoFilter := Some ''none''\<rparr>))"
    by (simp add: demo_opt_def truthy_str_def)
  have i: "show_str (snapshot_imageSource (demo_delegate (demo_opt\<lparr>opt_videoFilter := Some ''none''\<rparr>)))
     = ''-i rtsp://cam/live''"
    by (simp add: demo_defs js_defs builder_defs Let_def)
  have h: "truthy_bool (opt_hflip (demo_opt\<lparr>opt_videoFilter := Some ''none''\<rparr>))"
    by (simp add: demo_opt_def truthy_bool_def)
  from filter_none_emits_no_vf [OF demo_configured_fresh [OF s], of _ demo_snapshot demo_video]
  show ?thesis using i h by (simp add: demo_camera_def)
qed

text \<open>
  C8 (the code differs). When the child reports that it could not be spawned through
  its \<open>'error'\<close> event, the handler only logs; the \<open>'close'\<close> event that follows
  calls the snapshot callback with no error and the empty image buffer. Only an
  exception thrown by \<open>spawn\<close> itself reaches the callback as an error (second
  conjunct).
\<close>

theorem snapshot_launch_error_reports_success:
  "effects (handleSnapshotRequest (Spawned [ErrorEvent (Error ''spawn ffmpeg ENOENT''), Close])
              demo_snapshot (demo_delegate demo_opt))
     = [Spawn ''ffmpeg'' [''-i'', ''rtsp://cam/live'', ''-frames:v'', ''1'', ''-vf'',
                          ''hflip,scale=1280:720'', ''-f'', ''image2'', ''-''],
        Log ''Snapshot from Porch at 1280:720'',
        Log ''An error occurred while making snapshot request'',
        SnapshotCallback (Inr [])]
   \<and> effects (handleSnapshotRequest (SpawnThrows (Error ''spawn EAGAIN''))
              demo_snapshot (demo_delegate demo_opt))
     = [LogErrorObject (Error ''spawn EAGAIN''), SnapshotCallback (Inl (Error ''spawn EAGAIN''))]"
proof -
  have c: "snapshot_command (demo_delegate demo_opt) demo_snapshot
     = ''-i rtsp://cam/live -frames:v 1 -vf hflip,scale=1280:720 -f image2 -''"
    by (simp add: js_defs builder_defs demo_defs Let_def)
  have s: "split_ws ''-i rtsp://cam/live -frames:v 1 -vf hflip,scale=1280:720 -f image2 -''
     = [''-i'', ''rtsp://cam/live'', ''-frames:v'', ''1'', ''-vf'',
                           ''hflip,scale=1280:720'', ''-f'', ''image2'', ''-'']"
    by code_simp
  have r: "snapshot_resolution (demo_delegate demo_opt) demo_snapshot = ''1280:720''"
    by (simp add: js_defs builder_defs demo_defs Let_def)
  have e: "effects (demo_delegate demo_opt) = []"
    "name (demo_delegate demo_opt) = Some ''Porch''"
    "debug (demo_delegate demo_opt) = None"
    "videoProcessor (demo_delegate demo_opt) = ''ffmpeg''"
    by (simp_all add: demo_defs js_defs Let_def)
  show ?thesis
    by (simp add: handleSnapshotRequest_def emit_def c s r e truthy_bool_def show_str_def)
qed

text \<open>
  C5, as stated, fails: with no packet size configured and a requested MTU of 1378,
  the video output target of the launched command ends in \<open>pkt_size=1316\<close>, the
  constructor's default.
\<close>

theorem pkt_size_ignores_requested_mtu:
  "opt_packetSize demo_opt = None \<and> video_mtu demo_video = 1378
   \<and> ffmpegVideoStream (demo_delegate demo_opt) demo_session demo_video =
       '' -ssrc 1234 -f rtp -srtp_out_suite AES_CM_128_HMAC_SHA1_80 -srtp_out_params AQID srtp://192.168.1.20:50000?rtcpport=50000&localrtcpport=50000&pkt_size=1316''
   \<and> map_option proc_command
        (ongoingSessions (snd (handleStreamRequest never_raises never_raises
           (START ''s1'' demo_video demo_audio) demo_pending)) ''s1'') =
      Some ''-i rtsp://cam/live -map 0:0 -vcodec libx264 -pix_fmt yuv420p -r 30 -f rawvideo -preset ultrafast -tune zerolatency -vf scale=1280:720,hflip -b:v 300k -bufsize 600k -maxrate 300k -payload_type 99 -ssrc 1234 -f rtp -srtp_out_suite AES_CM_128_HMAC_SHA1_80 -srtp_out_params AQID srtp://192.168.1.20:50000?rtcpport=50000&localrtcpport=50000&pkt_size=1316''"
proof -
  have 1: "opt_packetSize demo_opt = None" by (simp add: demo_opt_def)
  have 2: "video_mtu demo_video = 1378" by (simp add: demo_video_def)
  have 3: "ffmpegVideoStream (demo_delegate demo_opt) demo_session demo_video =
       '' -ssrc 1234 -f rtp -srtp_out_suite AES_CM_128_HMAC_SHA1_80 -srtp_out_params AQID srtp://192.168.1.20:50000?rtcpport=50000&localrtcpport=50000&pkt_size=1316''"
    by (simp add: js_defs builder_defs demo_defs Let_def)
  show ?thesis
    by (simp only: 1 2 3 demo_started_command demo_stream_command simp_thms)
qed

text \<open>
  C5, amended. For a delegate built by the constructor from a configuration \<open>opt\<close>, a
  start event for a pending session launches a command whose video output target ends
  in \<open>&pkt_size=\<close> followed by the configured packet size when that is set and not
  \<open>0\<close>, and by 1316 otherwise; the requested MTU is not used.
\<close>

theorem pkt_size_is_configured_or_1316:
  assumes "configured_by pf cam vp ifn d"
    and "cfg_videoConfig cam = Some opt"
    and "pendingSessions d sid = Some info"
    and "new_raises (start_process d sid info video audio') = None"
  shows "stream_mtu d video = or_num (opt_packetSize opt) 1316
   \<and> map_option proc_command
        (ongoingSessions (snd (handleStreamRequest new_raises stop_raises
           (START sid video audio') d)) sid) =
      Some (show_str (opt_source opt)
            @ ffmpegVideoArgs d video
            @ ('' -ssrc '' @ show_num (videoSSRC info)
               @ '' -f rtp -srtp_out_suite AES_CM_128_HMAC_SHA1_80 -srtp_out_params ''
               @ base64 (videoSRTP info)
               @ '' srtp://'' @ address info @ '':'' @ show_num (videoPort info)
               @ ''?rtcpport='' @ show_num (videoPort info)
               @ ''&localrtcpport='' @ show_num (videoPort info)
               @ ''&pkt_size='' @ show_num (or_num (opt_packetSize opt) 1316))
            @ (if truthy_bool (audio d)
               then ffmpegAudioArgs d audio' @ ffmpegAudioStream info else [])
            @ (if truthy_bool (debug d) then '' -loglevel level+verbose'' else []))"
proof -
  note c = configured_by_opt [OF assms(1,2)]
  have z: "or_num (opt_packetSize opt) 1316 \<noteq> 0"
    by (simp add: or_num_def split: option.splits)
  have m: "stream_mtu d video = or_num (opt_packetSize opt) 1316"
    using z by (simp add: stream_mtu_def c(4))
  have s: "ffmpegVideoStream d info video =
       '' -ssrc '' @ show_num (videoSSRC info)
               @ '' -f rtp -srtp_out_suite AES_CM_128_HMAC_SHA1_80 -srtp_out_params ''
               @ base64 (videoSRTP info)
               @ '' srtp://'' @ address info @ '':'' @ show_num (videoPort info)
               @ ''?rtcpport='' @ show_num (videoPort info)
               @ ''&localrtcpport='' @ show_num (videoPort info)
               @ ''&pkt_size='' @ show_num (or_num (opt_packetSize opt) 1316)"
    by (simp add: ffmpegVideoStream_def m)
  have k: "proc_command (start_process d sid info video audio') =
      stream_command d info video audio'"
    by (simp add: start_process_def)
  show ?thesis
    by (simp only: m
        handleStreamRequest_start(3) [where new_raises = new_raises, OF assms(3,4)] fun_upd_same
        option.map k stream_command_def s c(1) simp_thms)
qed

theorem pkt_size_is_configured_or_1316_witness:
  "opt_packetSize (demo_opt\<lparr>opt_packetSize := Some 1200\<rparr>) = Some 1200
   \<and> video_mtu demo_video = 1378
   \<and> stream_mtu ((demo_delegate (demo_opt\<lparr>opt_packetSize := Some 1200\<rparr>))
                   \<lparr>pendingSessions := [''s1'' \<mapsto> demo_session]\<rparr>) demo_video = 1200
   \<and> map_option proc_command
        (ongoingSessions (snd (handleStreamRequest never_raises never_raises
           (START ''s1'' demo_video demo_audio)
           ((demo_delegate (demo_opt\<lparr>opt_packetSize := Some 1200\<rparr>))
              \<lparr>pendingSessions := [''s1'' \<mapsto> demo_session]\<rparr>))) ''s1'') =
      Some ''-i rtsp://cam/live -map 0:0 -vcodec libx264 -pix_fmt yuv420p -r 30 -f rawvideo -preset ultrafast -tune zerolatency -vf scale=1280:720,hflip -b:v 300k -bufsize 600k -maxrate 300k -payload_type 99 -ssrc 1234 -f rtp -srtp_out_suite AES_CM_128_HMAC_SHA1_80 -srtp_out_params AQID srtp://192.168.1.20:50000?rtcpport=50000&localrtcpport=50000&pkt_size=1200''"
proof -
  let ?opt = "demo_opt\<lparr>opt_packetSize := Some 1200\<rparr>"
  let ?d = "(demo_delegate ?opt)\<lparr>pendingSessions := [''s1'' \<mapsto> demo_session]\<rparr>"
  have s: "truthy_str (opt_source demo_opt)" by (simp add: demo_opt_def truthy_str_def)
  have cf: "configured_by None (demo_camera ?opt) None None ?d"
    by (simp add: configured_by_def demo_delegate_built s)
  have c: "cfg_videoConfig (demo_camera ?opt) = Some ?opt" by (simp add: demo_camera_def)
  have p: "pendingSessions ?d ''s1'' = Some demo_session" by simp
  have n: "never_raises (start_process ?d ''s1'' demo_session demo_video demo_audio) = None"
    by (simp add: never_raises_def)
  have o: "opt_packetSize ?opt = Some 1200" "video_mtu demo_video = 1378"
    "show_str (opt_source ?opt) = ''-i rtsp://cam/live''"
    by (simp_all add: demo_opt_def demo_video_def show_str_def)
  have a: "ffmpegVideoArgs ?d demo_video = '' -map 0:0 -vcodec libx264 -pix_fmt yuv420p -r 30 -f rawvideo -preset ultrafast -tune zerolatency -vf scale=1280:720,hflip -b:v 300k -bufsize 600k -maxrate 300k -payload_type 99''"
    by (simp add: js_defs builder_defs demo_defs Let_def)
  have i: "show_num (videoSSRC demo_session) = ''1234''"
    "base64 (videoSRTP demo_session) = ''AQID''"
    "address demo_session = ''192.168.1.20''"
    "show_num (videoPort demo_session) = ''50000''"
    "show_num 1200 = ''1200''"
    by (simp_all add: js_defs demo_session_def)
  have f: "truthy_bool (audio ?d) = False" "truthy_bool (debug ?d) = False"
    by (simp_all add: js_defs demo_defs Let_def)
  from pkt_size_is_configured_or_1316
    [where new_raises = never_raises and stop_raises = never_raises, OF cf c p n]
  show ?thesis using o a i f by (simp add: or_num_def)
qed

text \<open>
  C4, as stated, fails: \<open>prepareStream\<close> writes the pending record without looking
  at the active map. After negotiate, start and a second negotiate for the same
  identifier, the identifier is a key of both maps.
\<close>

theorem renegotiate_active_in_both_maps:
  "pendingSessions (run never_raises never_raises
      [Negotiate demo_host demo_prepare,
       Stream (START ''s1'' demo_video demo_audio),
       Negotiate demo_host demo_prepare] (demo_delegate demo_opt)) ''s1'' \<noteq> None
   \<and> ongoingSessions (run never_raises never_raises
      [Negotiate demo_host demo_prepare,
       Stream (START ''s1'' demo_video demo_audio),
       Negotiate demo_host demo_prepare] (demo_delegate demo_opt)) ''s1'' \<noteq> None
   \<and> \<not> at_most_one_map (run never_raises never_raises
      [Negotiate demo_host demo_prepare,
       Stream (START ''s1'' demo_video demo_audio),
       Negotiate demo_host demo_prepare] (demo_delegate demo_opt))"
proof -
  let ?d1 = "fire never_raises never_raises (Negotiate demo_host demo_prepare)
               (demo_delegate demo_opt)"
  let ?d2 = "fire never_raises never_raises (Stream (START ''s1'' demo_video demo_audio)) ?d1"
  let ?d3 = "fire never_raises never_raises (Negotiate demo_host demo_prepare) ?d2"
  have p1: "pendingSessions ?d1 ''s1'' \<noteq> None" by (simp add: demo_negotiate)
  then obtain info where i: "pendingSessions ?d1 ''s1'' = Some info" by blast
  have o2: "ongoingSessions ?d2 ''s1'' \<noteq> None" by (simp add: demo_start(2) [OF i])
  have o3: "ongoingSessions ?d3 ''s1'' \<noteq> None" using o2 by (simp add: demo_negotiate(2))
  have p3: "pendingSessions ?d3 ''s1'' \<noteq> None" by (simp add: demo_negotiate(1))
  have r: "run never_raises never_raises
      [Negotiate demo_host demo_prepare,
       Stream (START ''s1'' demo_video demo_audio),
       Negotiate demo_host demo_prepare] (demo_delegate demo_opt) = ?d3"
    by simp
  from o3 p3 have "\<not> at_most_one_map ?d3"
    by (auto simp add: at_most_one_map_iff)
  with o3 p3 show ?thesis by (simp only: r simp_thms)
qed

text \<open>
  C4, amended. A freshly built delegate has no identifier in both maps. From a state
  with no identifier in both maps, after every prefix of a run of events in which each
  negotiation names an identifier that is not active when it arrives, still no
  identifier is in both maps. A start event that finds a pending record, and whose
  process construction does not throw, leaves the identifier active and not pending
  when the handler returns.
\<close>

theorem sessions_in_one_map:
  "(constructor pf cam vp ifn = Inr d0 \<longrightarrow> at_most_one_map d0)
   \<and> (at_most_one_map d \<and> negotiates_inactive new_raises stop_raises evs d
        \<longrightarrow> at_most_one_map (run new_raises stop_raises (take n evs) d))
   \<and> (pendingSessions d sid = Some info
        \<and> new_raises (start_process d sid info video audio') = None
        \<longrightarrow> pendingSessions (snd (handleStreamRequest new_raises stop_raises
                                    (START sid video audio') d)) sid = None
          \<and> ongoingSessions (snd (handleStreamRequest new_raises stop_raises
                                    (START sid video audio') d)) sid
              = Some (start_process d sid info video audio'))"
proof -
  have 1: "constructor pf cam vp ifn = Inr d0 \<longrightarrow> at_most_one_map d0"
    using constructor_fields [of pf cam vp ifn d0] by (auto simp add: at_most_one_map_iff)
  have 2: "at_most_one_map d \<and> negotiates_inactive new_raises stop_raises evs d
        \<longrightarrow> at_most_one_map (run new_raises stop_raises (take n evs) d)"
    by (simp add: run_keeps_disjoint negotiates_inactive_take)
  have 3: "pendingSessions d sid = Some info
        \<and> new_raises (start_process d sid info video audio') = None
        \<longrightarrow> pendingSessions (snd (handleStreamRequest new_raises stop_raises
                                    (START sid video audio') d)) sid = None
          \<and> ongoingSessions (snd (handleStreamRequest new_raises stop_raises
                                    (START sid video audio') d)) sid
              = Some (start_process d sid info video audio')"
    by (simp add: handleStreamRequest_start(2,3) [where new_raises = new_raises])
  from 1 2 3 show ?thesis by blast
qed

theorem sessions_in_one_map_witness:
  "at_most_one_map (demo_delegate demo_opt)
   \<and> negotiates_inactive never_raises never_raises
        [Negotiate demo_host demo_prepare,
         Stream (START ''s1'' demo_video demo_audio),
         Stream (STOP ''s1'')] (demo_delegate demo_opt)
   \<and> at_most_one_map (run never_raises never_raises
        [Negotiate demo_host demo_prepare,
         Stream (START ''s1'' demo_video demo_audio),
         Stream (STOP ''s1'')] (demo_delegate demo_opt))
   \<and> pendingSessions demo_pending ''s1'' = Some demo_session
   \<and> pendingSessions (snd (handleStreamRequest never_raises never_raises
                              (START ''s1'' demo_video demo_audio) demo_pending)) ''s1'' = None
   \<and> ongoingSessions (snd (handleStreamRequest never_raises never_raises
                              (START ''s1'' demo_video demo_audio) demo_pending)) ''s1''
        = Some (start_process demo_pending ''s1'' demo_session demo_video demo_audio)"
proof -
  have s: "truthy_str (opt_source demo_opt)" by (simp add: demo_opt_def truthy_str_def)
  have c: "constructor None (demo_camera demo_opt) None None = Inr (demo_delegate demo_opt)"
    by (simp add: demo_delegate_built s)
  have n: "negotiates_inactive never_raises never_raises
        [Negotiate demo_host demo_prepare,
         Stream (START ''s1'' demo_video demo_audio),
         Stream (STOP ''s1'')] (demo_delegate demo_opt)"
    using constructor_fields [OF c] by simp
  have p: "pendingSessions demo_pending ''s1'' = Some demo_session"
    by (simp add: demo_pending_def)
  have k: "never_raises (start_process demo_pending ''s1'' demo_session demo_video demo_audio)
             = None"
    by (simp add: never_raises_def)
  from sessions_in_one_map [where new_raises = never_raises and stop_raises = never_raises
      and pf = None and cam = "demo_camera demo_opt" and vp = None and ifn = None
      and ?d0.0 = "demo_delegate demo_opt" and d = "demo_delegate demo_opt"
      and evs = "[Negotiate demo_host demo_prepare,
         Stream (START ''s1'' demo_video demo_audio),
         Stream (STOP ''s1'')]" and n = 3]
    sessions_in_one_map [where new_raises = never_raises and stop_raises = never_raises
      and d = demo_pending and sid = "''s1''" and info = demo_session
      and video = demo_video and audio' = demo_audio]
  show ?thesis using c n p k by simp
qed




text \<open>
  C10, as stated, fails when the configured \<open>maxBitrate\<close> is \<open>0\<close>: with audio enabled,
  a requested audio bitrate of 24 exceeds it and is still emitted as \<open>-b:a 24k\<close>.
\<close>

theorem zero_maxBitrate_does_not_cap_audio:
  "opt_maxBitrate (demo_opt\<lparr>opt_audio := Some True, opt_maxBitrate := Some 0\<rparr>) = Some 0
   \<and> audio_max_bit_rate demo_audio = 24
   \<and> map_option proc_command
        (ongoingSessions (snd (handleStreamRequest never_raises never_raises
           (START ''s1'' demo_video demo_audio)
           (demo_pending_for (demo_opt\<lparr>opt_audio := Some True, opt_maxBitrate := Some 0\<rparr>))))
           ''s1'') =
      Some ''-i rtsp://cam/live -map 0:0 -vcodec libx264 -pix_fmt yuv420p -r 30 -f rawvideo -preset ultrafast -tune zerolatency -vf scale=1280:720,hflip -b:v 500k -bufsize 1000k -maxrate 500k -payload_type 99 -ssrc 1234 -f rtp -srtp_out_suite AES_CM_128_HMAC_SHA1_80 -srtp_out_params AQID srtp://192.168.1.20:50000?rtcpport=50000&localrtcpport=50000&pkt_size=1316 -map 0:1 -acodec libfdk_aac -profile:a aac_eld -flags +global_header -f null -ar 16k -b:a 24k -bufsize 24k -ac 1 -payload_type 110 -ssrc 5678 -f rtp -srtp_out_suite AES_CM_128_HMAC_SHA1_80 -srtp_out_params /w== srtp://192.168.1.20:50002?rtcpport=50002&localrtcpport=50002&pkt_size=188''"
proof -
  have 1: "opt_maxBitrate (demo_opt\<lparr>opt_audio := Some True, opt_maxBitrate := Some 0\<rparr>) = Some 0"
    "audio_max_bit_rate demo_audio = 24"
    by (simp_all add: demo_opt_def demo_audio_def)
  have 2: "stream_command
             (demo_pending_for (demo_opt\<lparr>opt_audio := Some True, opt_maxBitrate := Some 0\<rparr>))
             demo_session demo_video demo_audio =
      ''-i rtsp://cam/live -map 0:0 -vcodec libx264 -pix_fmt yuv420p -r 30 -f rawvideo -preset ultrafast -tune zerolatency -vf scale=1280:720,hflip -b:v 500k -bufsize 1000k -maxrate 500k -payload_type 99 -ssrc 1234 -f rtp -srtp_out_suite AES_CM_128_HMAC_SHA1_80 -srtp_out_params AQID srtp://192.168.1.20:50000?rtcpport=50000&localrtcpport=50000&pkt_size=1316 -map 0:1 -acodec libfdk_aac -profile:a aac_eld -flags +global_header -f null -ar 16k -b:a 24k -bufsize 24k -ac 1 -payload_type 110 -ssrc 5678 -f rtp -srtp_out_suite AES_CM_128_HMAC_SHA1_80 -srtp_out_params /w== srtp://192.168.1.20:50002?rtcpport=50002&localrtcpport=50002&pkt_size=188''"
    by (simp add: js_defs builder_defs demo_defs demo_pending_for_def Let_def)
  show ?thesis by (simp only: 1 2 demo_launched simp_thms)
qed

text \<open>
  C10, amended. For a delegate built by the constructor with audio enabled and a start
  event for a pending session, with \<open>launched\<close> the command the event launches: a
  requested audio bitrate above a \<open>maxBitrate\<close> that is set and not \<open>0\<close> is emitted as
  \<open>maxBitrate\<close> after \<open>-b:a\<close> and the audio \<open>-bufsize\<close>; one below \<open>minBitrate\<close> is
  emitted as requested; and whenever the ceiling's guard does not fire, the requested
  value is emitted unchanged.
\<close>

theorem audio_bitrate_in_command:
  assumes "configured_by pf cam vp ifn d"
    and "cfg_videoConfig cam = Some opt"
    and "pendingSessions d sid = Some info"
    and "new_raises (start_process d sid info video audio') = None"
    and "truthy_bool (opt_audio opt)"
  shows
   "let launched = map_option proc_command
          (ongoingSessions (snd (handleStreamRequest new_raises stop_raises
             (START sid video audio') d)) sid);
        cmd = (\<lambda>a.
          show_str (opt_source opt) @ ffmpegVideoArgs d video @ ffmpegVideoStream d info video
          @ '' -map '' @ mapaudio d
          @ '' -acodec libfdk_aac -profile:a aac_eld -flags +global_header -f null -ar ''
          @ show_num (audio_sample_rate audio') @ ''k -b:a '' @ show_num a
          @ ''k -bufsize '' @ show_num a @ ''k -ac 1 -payload_type ''
          @ show_num (audio_pt audio') @ ffmpegAudioStream info
          @ (if truthy_bool (opt_debug opt) then '' -loglevel level+verbose'' else []))
    in (opt_maxBitrate opt = Some mb \<and> mb \<noteq> 0 \<and> audio_max_bit_rate audio' > mb
          \<longrightarrow> launched = Some (cmd mb))
     \<and> (minBitrate d = Some nb \<and> audio_max_bit_rate audio' < nb
          \<longrightarrow> launched = Some (cmd (audio_max_bit_rate audio')))
     \<and> (\<not> (truthy_num (opt_maxBitrate opt)
             \<and> gt_num (audio_max_bit_rate audio') (opt_maxBitrate opt))
          \<longrightarrow> launched = Some (cmd (audio_max_bit_rate audio')))"
proof -
  note c = configured_by_opt [OF assms(1,2)]
  note a = audio_bitrate_values [OF assms(1)]
  have L: "map_option proc_command
          (ongoingSessions (snd (handleStreamRequest new_raises stop_raises
             (START sid video audio') d)) sid)
        = Some (show_str (opt_source opt) @ ffmpegVideoArgs d video
          @ ffmpegVideoStream d info video
          @ '' -map '' @ mapaudio d
          @ '' -acodec libfdk_aac -profile:a aac_eld -flags +global_header -f null -ar ''
          @ show_num (audio_sample_rate audio') @ ''k -b:a ''
          @ show_num (stream_audioBitrate d audio')
          @ ''k -bufsize '' @ show_num (stream_audioBitrate d audio')
          @ ''k -ac 1 -payload_type ''
          @ show_num (audio_pt audio') @ ffmpegAudioStream info
          @ (if truthy_bool (opt_debug opt) then '' -loglevel level+verbose'' else []))"
    using assms(5)
    by (simp add: launched_command [where new_raises = new_raises, OF assms(3,4)]
        stream_command_def ffmpegAudioArgs_def c)
  have A1: "opt_maxBitrate opt = Some mb \<and> mb \<noteq> 0 \<and> audio_max_bit_rate audio' > mb
         \<longrightarrow> stream_audioBitrate d audio' = mb"
    using a [where mb = mb and a = audio'] by (simp add: c)
  have A2: "minBitrate d = Some nb \<and> audio_max_bit_rate audio' < nb
         \<longrightarrow> stream_audioBitrate d audio' = audio_max_bit_rate audio'"
    using a [where nb = nb and a = audio'] by blast
  have A3: "\<not> (truthy_num (opt_maxBitrate opt)
             \<and> gt_num (audio_max_bit_rate audio') (opt_maxBitrate opt))
         \<longrightarrow> stream_audioBitrate d audio' = audio_max_bit_rate audio'"
    by (simp add: stream_audioBitrate_def c Let_def)
  show ?thesis
    unfolding Let_def L
    using A1 A2 A3 by auto
qed

theorem audio_bitrate_in_command_witness:
  "truthy_bool (opt_audio (demo_opt\<lparr>opt_audio := Some True\<rparr>))
   \<and> opt_maxBitrate (demo_opt\<lparr>opt_audio := Some True\<rparr>) = Some 300
   \<and> minBitrate (demo_pending_for (demo_opt\<lparr>opt_audio := Some True\<rparr>)) = Some 100
   \<and> map_option proc_command
        (ongoingSessions (snd (handleStreamRequest never_raises never_raises
           (START ''s1'' demo_video (demo_audio\<lparr>audio_max_bit_rate := 320\<rparr>))
           (demo_pending_for (demo_opt\<lparr>opt_audio := Some True\<rparr>)))) ''s1'') =
      Some ''-i rtsp://cam/live -map 0:0 -vcodec libx264 -pix_fmt yuv420p -r 30 -f rawvideo -preset ultrafast -tune zerolatency -vf scale=1280:720,hflip -b:v 300k -bufsize 600k -maxrate 300k -payload_type 99 -ssrc 1234 -f rtp -srtp_out_suite AES_CM_128_HMAC_SHA1_80 -srtp_out_params AQID srtp://192.168.1.20:50000?rtcpport=50000&localrtcpport=50000&pkt_size=1316 -map 0:1 -acodec libfdk_aac -profile:a aac_eld -flags +global_header -f null -ar 16k -b:a 300k -bufsize 300k -ac 1 -payload_type 110 -ssrc 5678 -f rtp -srtp_out_suite AES_CM_128_HMAC_SHA1_80 -srtp_out_params /w== srtp://192.168.1.20:50002?rtcpport=50002&localrtcpport=50002&pkt_size=188''
   \<and> audio_max_bit_rate demo_audio = 24
   \<and> map_option proc_command
        (ongoingSessions (snd (handleStreamRequest never_raises never_raises
           (START ''s1'' demo_video demo_audio)
           (demo_pending_for (demo_opt\<lparr>opt_audio := Some True\<rparr>)))) ''s1'') =
      Some ''-i rtsp://cam/live -map 0:0 -vcodec libx264 -pix_fmt yuv420p -r 30 -f rawvideo -preset ultrafast -tune zerolatency -vf scale=1280:720,hflip -b:v 300k -bufsize 600k -maxrate 300k -payload_type 99 -ssrc 1234 -f rtp -srtp_out_suite AES_CM_128_HMAC_SHA1_80 -srtp_out_params AQID srtp://192.168.1.20:50000?rtcpport=50000&localrtcpport=50000&pkt_size=1316 -map 0:1 -acodec libfdk_aac -profile:a aac_eld -flags +global_header -f null -ar 16k -b:a 24k -bufsize 24k -ac 1 -payload_type 110 -ssrc 5678 -f rtp -srtp_out_suite AES_CM_128_HMAC_SHA1_80 -srtp_out_params /w== srtp://192.168.1.20:50002?rtcpport=50002&localrtcpport=50002&pkt_size=188''"
proof -
  let ?o = "demo_opt\<lparr>opt_audio := Some True\<rparr>"
  let ?d = "demo_pending_for ?o"
  have s: "truthy_str (opt_source ?o)"
    by (simp add: demo_opt_def truthy_str_def)
  have c: "\<And>opt. cfg_videoConfig (demo_camera opt) = Some opt"
    by (simp add: demo_camera_def)
  have p: "\<And>opt. pendingSessions (demo_pending_for opt) ''s1'' = Some demo_session"
    by (simp add: demo_pending_for_def)
  have n: "\<And>p. never_raises p = None" by (simp add: never_raises_def)
  have t: "truthy_bool (opt_audio ?o)" by (simp add: truthy_bool_def)
  have o: "opt_maxBitrate ?o = Some 300" "opt_debug ?o = None"
    "show_str (opt_source ?o) = ''-i rtsp://cam/live''"
    "opt_maxBitrate demo_opt = Some 300" "opt_debug demo_opt = None"
    "show_str (opt_source demo_opt) = ''-i rtsp://cam/live''"
    by (simp_all add: demo_opt_def show_str_def)
  have v: "audio_max_bit_rate demo_audio = 24" "audio_sample_rate demo_audio = 16"
    "audio_pt demo_audio = 110"
    "audio_max_bit_rate (demo_audio\<lparr>audio_max_bit_rate := 320\<rparr>) = 320"
    "audio_sample_rate (demo_audio\<lparr>audio_max_bit_rate := 320\<rparr>) = 16"
    "audio_pt (demo_audio\<lparr>audio_max_bit_rate := 320\<rparr>) = 110"
    by (simp_all add: demo_audio_def)
  have d: "minBitrate ?d = Some 100" "mapaudio ?d = ''0:1''"
    by (simp_all add: js_defs demo_defs demo_pending_for_def Let_def)
  have k: "ffmpegVideoArgs ?d demo_video = '' -map 0:0 -vcodec libx264 -pix_fmt yuv420p -r 30 -f rawvideo -preset ultrafast -tune zerolatency -vf scale=1280:720,hflip -b:v 300k -bufsize 600k -maxrate 300k -payload_type 99''"
    "ffmpegVideoStream ?d demo_session demo_video = '' -ssrc 1234 -f rtp -srtp_out_suite AES_CM_128_HMAC_SHA1_80 -srtp_out_params AQID srtp://192.168.1.20:50000?rtcpport=50000&localrtcpport=50000&pkt_size=1316''"
    "ffmpegAudioStream demo_session = '' -ssrc 5678 -f rtp -srtp_out_suite AES_CM_128_HMAC_SHA1_80 -srtp_out_params /w== srtp://192.168.1.20:50002?rtcpport=50002&localrtcpport=50002&pkt_size=188''"
    by (simp_all add: js_defs builder_defs demo_defs demo_pending_for_def Let_def)
  have m: "show_num 300 = ''300''" "show_num 24 = ''24''" "show_num 16 = ''16''"
    "show_num 110 = ''110''"
    by (simp_all add: js_defs)
  note t1 = audio_bitrate_in_command
      [where new_raises = never_raises and stop_raises = never_raises
        and video = demo_video and audio' = "demo_audio\<lparr>audio_max_bit_rate := 320\<rparr>"
        and mb = 300 and nb = 100,
       OF demo_pending_for_configured [OF s] c p n t]
  note t2 = audio_bitrate_in_command
      [where new_raises = never_raises and stop_raises = never_raises
        and video = demo_video and audio' = demo_audio
        and mb = 300 and nb = 100,
       OF demo_pending_for_configured [OF s] c p n t]
  have a1: "map_option proc_command
        (ongoingSessions (snd (handleStreamRequest never_raises never_raises
           (START ''s1'' demo_video (demo_audio\<lparr>audio_max_bit_rate := 320\<rparr>))
           (demo_pending_for (demo_opt\<lparr>opt_audio := Some True\<rparr>)))) ''s1'') =
      Some ''-i rtsp://cam/live -map 0:0 -vcodec libx264 -pix_fmt yuv420p -r 30 -f rawvideo -preset ultrafast -tune zerolatency -vf scale=1280:720,hflip -b:v 300k -bufsize 600k -maxrate 300k -payload_type 99 -ssrc 1234 -f rtp -srtp_out_suite AES_CM_128_HMAC_SHA1_80 -srtp_out_params AQID srtp://192.168.1.20:50000?rtcpport=50000&localrtcpport=50000&pkt_size=1316 -map 0:1 -acodec libfdk_aac -profile:a aac_eld -flags +global_header -f null -ar 16k -b:a 300k -bufsize 300k -ac 1 -payload_type 110 -ssrc 5678 -f rtp -srtp_out_suite AES_CM_128_HMAC_SHA1_80 -srtp_out_params /w== srtp://192.168.1.20:50002?rtcpport=50002&localrtcpport=50002&pkt_size=188''"
    using t1
    by (simp add: Let_def o v d k m truthy_bool_def truthy_num_def gt_num_def
        del: map_option_eq_Some)
  have a2: "map_option proc_command
        (ongoingSessions (snd (handleStreamRequest never_raises never_raises
           (START ''s1'' demo_video demo_audio)
           (demo_pending_for (demo_opt\<lparr>opt_audio := Some True\<rparr>)))) ''s1'') =
      Some ''-i rtsp://cam/live -map 0:0 -vcodec libx264 -pix_fmt yuv420p -r 30 -f rawvideo -preset ultrafast -tune zerolatency -vf scale=1280:720,hflip -b:v 300k -bufsize 600k -maxrate 300k -payload_type 99 -ssrc 1234 -f rtp -srtp_out_suite AES_CM_128_HMAC_SHA1_80 -srtp_out_params AQID srtp://192.168.1.20:50000?rtcpport=50000&localrtcpport=50000&pkt_size=1316 -map 0:1 -acodec libfdk_aac -profile:a aac_eld -flags +global_header -f null -ar 16k -b:a 24k -bufsize 24k -ac 1 -payload_type 110 -ssrc 5678 -f rtp -srtp_out_suite AES_CM_128_HMAC_SHA1_80 -srtp_out_params /w== srtp://192.168.1.20:50002?rtcpport=50002&localrtcpport=50002&pkt_size=188''"
    using t2
    by (simp add: Let_def o v d k m truthy_bool_def truthy_num_def gt_num_def
        del: map_option_eq_Some)
  show ?thesis
    by (simp only: t o v d a1 a2 simp_thms)
qed

end
